theory Spec2Isabelle
  imports Complex_Main "HOL-Library.AList" "HOL-Library.Sublist"
begin

section \<open>Spark values, column expressions and DataFrames\<close>

text \<open>
  The transform is written against the PySpark DataFrame API. A DataFrame is modelled as
  its column names together with its rows, a row being the list of cells in column
  order. A cell is SQL-valued: it may be NULL. Doubles are modelled as exact rationals,
  timestamps as microseconds since the epoch (Spark's TimestampType).
\<close>

datatype cell = Null | Bool bool | Num rat | Ts int | Str string

record DataFrame =
  columns :: "string list"
  rows :: "cell list list"

text \<open>
  What a query reads from the Spark session: the value of \<open>current_timestamp()\<close> and the
  session calendar behind \<open>year()\<close> and \<open>month()\<close>.
\<close>

record session =
  current_timestamp :: int
  year_of :: "int \<Rightarrow> int"
  month_of :: "int \<Rightarrow> int"

text \<open>Column expressions, as built with \<open>pyspark.sql.functions\<close> and the Column operators.\<close>

datatype expr =
    Col string
  | Lit cell
  | IsNull expr
  | Not expr
  | And expr expr
  | Or expr expr
  | Ge expr expr
  | Le expr expr
  | Gt expr expr
  | Sub expr expr
  | Div expr expr
  | Mul expr expr
  | UnixTimestamp expr
  | When expr expr expr
  | CurrentTimestamp
  | Year expr
  | Month expr

text \<open>SQL three-valued logic: a comparison with NULL is NULL, and so is its negation.\<close>

fun sql_not :: "cell \<Rightarrow> cell" where
  "sql_not (Bool b) = Bool (\<not> b)"
| "sql_not _ = Null"

fun sql_and :: "cell \<Rightarrow> cell \<Rightarrow> cell" where
  "sql_and (Bool False) _ = Bool False"
| "sql_and _ (Bool False) = Bool False"
| "sql_and (Bool True) (Bool True) = Bool True"
| "sql_and _ _ = Null"

fun sql_or :: "cell \<Rightarrow> cell \<Rightarrow> cell" where
  "sql_or (Bool True) _ = Bool True"
| "sql_or _ (Bool True) = Bool True"
| "sql_or (Bool False) (Bool False) = Bool False"
| "sql_or _ _ = Null"

fun sql_ge :: "cell \<Rightarrow> cell \<Rightarrow> cell" where
  "sql_ge (Num a) (Num b) = Bool (b \<le> a)"
| "sql_ge (Ts a) (Ts b) = Bool (b \<le> a)"
| "sql_ge _ _ = Null"

fun sql_le :: "cell \<Rightarrow> cell \<Rightarrow> cell" where
  "sql_le (Num a) (Num b) = Bool (a \<le> b)"
| "sql_le (Ts a) (Ts b) = Bool (a \<le> b)"
| "sql_le _ _ = Null"

fun sql_gt :: "cell \<Rightarrow> cell \<Rightarrow> cell" where
  "sql_gt (Num a) (Num b) = Bool (b < a)"
| "sql_gt (Ts a) (Ts b) = Bool (b < a)"
| "sql_gt _ _ = Null"

fun sql_sub :: "cell \<Rightarrow> cell \<Rightarrow> cell" where
  "sql_sub (Num a) (Num b) = Num (a - b)"
| "sql_sub _ _ = Null"

fun sql_mul :: "cell \<Rightarrow> cell \<Rightarrow> cell" where
  "sql_mul (Num a) (Num b) = Num (a * b)"
| "sql_mul _ _ = Null"

text \<open>Spark SQL division yields NULL on a zero divisor.\<close>

fun sql_div :: "cell \<Rightarrow> cell \<Rightarrow> cell" where
  "sql_div (Num a) (Num b) = (if b = 0 then Null else Num (a / b))"
| "sql_div _ _ = Null"

text \<open>
  \<open>unix_timestamp\<close> of a timestamp: its microseconds divided by 1000000 as a JVM long
  division, which truncates toward zero, so that the fraction of a second is dropped on
  either side of the epoch.
\<close>

definition whole_seconds :: "int \<Rightarrow> int" where
  "whole_seconds t = (if t < 0 then - ((- t) div 1000000) else t div 1000000)"

fun unix_timestamp :: "cell \<Rightarrow> cell" where
  "unix_timestamp (Ts t) = Num (of_int (whole_seconds t))"
| "unix_timestamp _ = Null"

fun sql_year :: "session \<Rightarrow> cell \<Rightarrow> cell" where
  "sql_year s (Ts t) = Num (of_int (year_of s t))"
| "sql_year s _ = Null"

fun sql_month :: "session \<Rightarrow> cell \<Rightarrow> cell" where
  "sql_month s (Ts t) = Num (of_int (month_of s t))"
| "sql_month s _ = Null"

definition row_get :: "string list \<Rightarrow> cell list \<Rightarrow> string \<Rightarrow> cell option" where
  "row_get cols r c = map_of (zip cols r) c"

fun eval :: "session \<Rightarrow> string list \<Rightarrow> cell list \<Rightarrow> expr \<Rightarrow> cell" where
  "eval s cols r (Col c) = (case row_get cols r c of Some v \<Rightarrow> v | None \<Rightarrow> Null)"
| "eval s cols r (Lit v) = v"
| "eval s cols r (IsNull e) = Bool (eval s cols r e = Null)"
| "eval s cols r (Not e) = sql_not (eval s cols r e)"
| "eval s cols r (And a b) = sql_and (eval s cols r a) (eval s cols r b)"
| "eval s cols r (Or a b) = sql_or (eval s cols r a) (eval s cols r b)"
| "eval s cols r (Ge a b) = sql_ge (eval s cols r a) (eval s cols r b)"
| "eval s cols r (Le a b) = sql_le (eval s cols r a) (eval s cols r b)"
| "eval s cols r (Gt a b) = sql_gt (eval s cols r a) (eval s cols r b)"
| "eval s cols r (Sub a b) = sql_sub (eval s cols r a) (eval s cols r b)"
| "eval s cols r (Div a b) = sql_div (eval s cols r a) (eval s cols r b)"
| "eval s cols r (Mul a b) = sql_mul (eval s cols r a) (eval s cols r b)"
| "eval s cols r (UnixTimestamp e) = unix_timestamp (eval s cols r e)"
| "eval s cols r (When c a b) =
     (if eval s cols r c = Bool True then eval s cols r a else eval s cols r b)"
| "eval s cols r CurrentTimestamp = Ts (current_timestamp s)"
| "eval s cols r (Year e) = sql_year s (eval s cols r e)"
| "eval s cols r (Month e) = sql_month s (eval s cols r e)"

text \<open>
  Spark resolves column names when an expression is attached to a DataFrame; a name
  that is not a column raises AnalysisException.
\<close>

fun refs :: "expr \<Rightarrow> string list" where
  "refs (Col c) = [c]"
| "refs (Lit v) = []"
| "refs (IsNull e) = refs e"
| "refs (Not e) = refs e"
| "refs (And a b) = refs a @ refs b"
| "refs (Or a b) = refs a @ refs b"
| "refs (Ge a b) = refs a @ refs b"
| "refs (Le a b) = refs a @ refs b"
| "refs (Gt a b) = refs a @ refs b"
| "refs (Sub a b) = refs a @ refs b"
| "refs (Div a b) = refs a @ refs b"
| "refs (Mul a b) = refs a @ refs b"
| "refs (UnixTimestamp e) = refs e"
| "refs (When c a b) = refs c @ refs a @ refs b"
| "refs CurrentTimestamp = []"
| "refs (Year e) = refs e"
| "refs (Month e) = refs e"

datatype error = ZeroDivisionError | AnalysisException "string list" | WriteFailed string

definition unresolved :: "string list \<Rightarrow> expr \<Rightarrow> string list" where
  "unresolved cols e = filter (\<lambda>c. c \<notin> set cols) (refs e)"

definition df_count :: "DataFrame \<Rightarrow> nat" where
  "df_count df = length (rows df)"

definition createDataFrame :: "cell list list \<Rightarrow> string list \<Rightarrow> DataFrame" where
  "createDataFrame data schema = \<lparr>columns = schema, rows = data\<rparr>"

text \<open>\<open>df.filter(cond)\<close> keeps the rows on which the condition is TRUE (not FALSE, not NULL).\<close>

definition df_filter :: "session \<Rightarrow> expr \<Rightarrow> DataFrame \<Rightarrow> error + DataFrame" where
  "df_filter s cond df =
     (if unresolved (columns df) cond \<noteq> [] then Inl (AnalysisException (unresolved (columns df) cond))
      else Inr (df\<lparr>rows := filter (\<lambda>r. eval s (columns df) r cond = Bool True) (rows df)\<rparr>))"

text \<open>
  \<open>df.withColumn(name, e)\<close> replaces the column of that name if there is one and
  appends a new column otherwise.
\<close>

definition row_with :: "string list \<Rightarrow> string \<Rightarrow> cell \<Rightarrow> cell list \<Rightarrow> cell list" where
  "row_with cols name v r =
     (if name \<in> set cols then map (\<lambda>(c, x). if c = name then v else x) (zip cols r)
      else r @ [v])"

definition withColumn :: "session \<Rightarrow> string \<Rightarrow> expr \<Rightarrow> DataFrame \<Rightarrow> error + DataFrame" where
  "withColumn s name e df =
     (if unresolved (columns df) e \<noteq> [] then Inl (AnalysisException (unresolved (columns df) e))
      else Inr \<lparr>columns = (if name \<in> set (columns df) then columns df else columns df @ [name]),
               rows = map (\<lambda>r. row_with (columns df) name (eval s (columns df) r e) r) (rows df)\<rparr>)"

text \<open>Sequencing of calls that may raise.\<close>

definition and_then :: "error + 'a \<Rightarrow> ('a \<Rightarrow> error + 'b) \<Rightarrow> error + 'b" where
  "and_then m f = (case m of Inl e \<Rightarrow> Inl e | Inr x \<Rightarrow> f x)"

section \<open>DataQualityChecker (transform/data_quality.py)\<close>

record DataQualityChecker =
  bucket_name :: string
  quality_metrics :: "(string \<times> nat) list"

text \<open>The constructor: \<open>quality_metrics\<close> starts as the empty dict.\<close>

definition init_checker :: "string \<Rightarrow> DataQualityChecker" where
  "init_checker bucket = \<lparr>bucket_name = bucket, quality_metrics = []\<rparr>"

definition REQUIRED_FIELDS :: "string list" where
  "REQUIRED_FIELDS =
     [''tpep_pickup_datetime'', ''tpep_dropoff_datetime'', ''passenger_count'',
      ''trip_distance'', ''fare_amount'', ''total_amount'']"

definition NUMERIC_RANGES :: "(string \<times> rat \<times> rat) list" where
  "NUMERIC_RANGES =
     [(''passenger_count'', 1, 6),
      (''trip_distance'', 1 / 10, 100),
      (''fare_amount'', 1 / 100, 500),
      (''total_amount'', 1 / 100, 1000),
      (''tip_amount'', 0, 200),
      (''tolls_amount'', 0, 100),
      (''extra'', 0, 10),
      (''mta_tax'', 0, 1)]"

text \<open>
  Every rule tags its rejected rows the same way:
  \<open>.withColumn('failure_reason', F.lit(reason)).withColumn('failed_at', F.current_timestamp())\<close>.
\<close>

definition failure_columns :: "session \<Rightarrow> string \<Rightarrow> DataFrame \<Rightarrow> error + DataFrame" where
  "failure_columns s reason df =
     and_then (withColumn s ''failure_reason'' (Lit (Str reason)) df)
       (withColumn s ''failed_at'' CurrentTimestamp)"

text \<open>
  The body shared by the five rules once their condition is built: the rejected rows are
  \<open>df.filter(invalid_cond)\<close> with the failure columns, the accepted rows are
  \<open>df.filter(valid_cond)\<close>, and the number of rejected rows is stored under the rule's
  key of \<open>quality_metrics\<close>.
\<close>

definition split_records ::
  "session \<Rightarrow> expr \<Rightarrow> expr \<Rightarrow> string \<Rightarrow> string \<Rightarrow> DataQualityChecker \<Rightarrow> DataFrame
     \<Rightarrow> (error + DataFrame \<times> DataFrame) \<times> DataQualityChecker" where
  "split_records s invalid_cond valid_cond reason metric self df =
     (case and_then (df_filter s invalid_cond df) (failure_columns s reason) of
        Inl e \<Rightarrow> (Inl e, self)
      | Inr invalid_df \<Rightarrow>
          (case df_filter s valid_cond df of
             Inl e \<Rightarrow> (Inl e, self)
           | Inr valid_df \<Rightarrow>
               (Inr (valid_df, invalid_df),
                self\<lparr>quality_metrics :=
                  AList.update metric (df_count invalid_df) (quality_metrics self)\<rparr>)))"

text \<open>The loop of \<open>check_null_values\<close> over the required fields, starting from \<open>None\<close>.\<close>

definition null_condition_of :: "string list \<Rightarrow> string list \<Rightarrow> expr option" where
  "null_condition_of required cols =
     fold (\<lambda>field null_condition.
             if field \<in> set cols
             then (case null_condition of
                     None \<Rightarrow> Some (IsNull (Col field))
                   | Some c \<Rightarrow> Some (Or c (IsNull (Col field))))
             else null_condition)
          required None"

definition check_null_values ::
  "session \<Rightarrow> DataQualityChecker \<Rightarrow> DataFrame
     \<Rightarrow> (error + DataFrame \<times> DataFrame) \<times> DataQualityChecker" where
  "check_null_values s self df =
     (case null_condition_of REQUIRED_FIELDS (columns df) of
        None \<Rightarrow> (Inr (df, createDataFrame [] (columns df)), self)
      | Some null_condition \<Rightarrow>
          split_records s null_condition (Not null_condition)
            ''null_in_required_field'' ''null_violations'' self df)"

text \<open>The loop of \<open>validate_numeric_ranges\<close> over the range table, starting from \<open>F.lit(True)\<close>.\<close>

definition range_condition_of :: "(string \<times> rat \<times> rat) list \<Rightarrow> string list \<Rightarrow> expr" where
  "range_condition_of ranges cols =
     fold (\<lambda>(field, min_val, max_val) range_condition.
             if field \<in> set cols
             then And range_condition
                    (And (Ge (Col field) (Lit (Num min_val))) (Le (Col field) (Lit (Num max_val))))
             else range_condition)
          ranges (Lit (Bool True))"

definition validate_numeric_ranges ::
  "session \<Rightarrow> DataQualityChecker \<Rightarrow> DataFrame
     \<Rightarrow> (error + DataFrame \<times> DataFrame) \<times> DataQualityChecker" where
  "validate_numeric_ranges s self df =
     (let range_condition = range_condition_of NUMERIC_RANGES (columns df)
      in split_records s (Not range_condition) range_condition
           ''numeric_range_violation'' ''range_violations'' self df)"

definition validate_datetime_logic ::
  "session \<Rightarrow> DataQualityChecker \<Rightarrow> DataFrame
     \<Rightarrow> (error + DataFrame \<times> DataFrame) \<times> DataQualityChecker" where
  "validate_datetime_logic s self df =
     (if ''tpep_pickup_datetime'' \<notin> set (columns df) \<or> ''tpep_dropoff_datetime'' \<notin> set (columns df)
      then (Inr (df, createDataFrame [] (columns df)), self)
      else
        (let datetime_condition = Gt (Col ''tpep_dropoff_datetime'') (Col ''tpep_pickup_datetime'')
         in split_records s (Not datetime_condition) datetime_condition
              ''invalid_datetime_sequence'' ''datetime_violations'' self df))"

definition validate_trip_duration ::
  "session \<Rightarrow> DataQualityChecker \<Rightarrow> DataFrame \<Rightarrow> rat \<Rightarrow> rat
     \<Rightarrow> (error + DataFrame \<times> DataFrame) \<times> DataQualityChecker" where
  "validate_trip_duration s self df min_minutes max_minutes =
     (if ''trip_duration_minutes'' \<notin> set (columns df)
      then (Inr (df, createDataFrame [] (columns df)), self)
      else
        (let duration_condition =
               And (Ge (Col ''trip_duration_minutes'') (Lit (Num min_minutes)))
                   (Le (Col ''trip_duration_minutes'') (Lit (Num max_minutes)))
         in split_records s (Not duration_condition) duration_condition
              ''invalid_trip_duration'' ''duration_violations'' self df))"

definition validate_tip_percentage ::
  "session \<Rightarrow> DataQualityChecker \<Rightarrow> DataFrame \<Rightarrow> rat
     \<Rightarrow> (error + DataFrame \<times> DataFrame) \<times> DataQualityChecker" where
  "validate_tip_percentage s self df max_percentage =
     (if ''tip_percentage'' \<notin> set (columns df)
      then (Inr (df, createDataFrame [] (columns df)), self)
      else
        (let tip_condition =
               And (Ge (Col ''tip_percentage'') (Lit (Num 0)))
                   (Le (Col ''tip_percentage'') (Lit (Num max_percentage)))
         in split_records s (Not tip_condition) tip_condition
              ''invalid_tip_percentage'' ''tip_percentage_violations'' self df))"

text \<open>
  One step of \<open>run_all_checks\<close>:
  \<open>df, invalid = self.check(df); if invalid.count() > 0: invalid_dfs.append(invalid)\<close>.
\<close>

definition run_check ::
  "(DataQualityChecker \<Rightarrow> DataFrame \<Rightarrow> (error + DataFrame \<times> DataFrame) \<times> DataQualityChecker)
     \<Rightarrow> (error + DataFrame \<times> DataFrame list) \<times> DataQualityChecker
     \<Rightarrow> (error + DataFrame \<times> DataFrame list) \<times> DataQualityChecker" where
  "run_check check st =
     (case st of
        (Inl e, self) \<Rightarrow> (Inl e, self)
      | (Inr (df, invalid_dfs), self) \<Rightarrow>
          (case check self df of
             (Inl e, self') \<Rightarrow> (Inl e, self')
           | (Inr (df', invalid), self') \<Rightarrow>
               (Inr (df', if df_count invalid > 0 then invalid_dfs @ [invalid] else invalid_dfs),
                self')))"

text \<open>The guarded steps: \<open>if 'trip_duration_minutes' in df.columns: ...\<close>.\<close>

definition run_check_if ::
  "string
     \<Rightarrow> (DataQualityChecker \<Rightarrow> DataFrame \<Rightarrow> (error + DataFrame \<times> DataFrame) \<times> DataQualityChecker)
     \<Rightarrow> (error + DataFrame \<times> DataFrame list) \<times> DataQualityChecker
     \<Rightarrow> (error + DataFrame \<times> DataFrame list) \<times> DataQualityChecker" where
  "run_check_if col check st =
     (case st of
        (Inl e, self) \<Rightarrow> (Inl e, self)
      | (Inr (df, invalid_dfs), self) \<Rightarrow>
          (if col \<in> set (columns df) then run_check check st else st))"

text \<open>
  \<open>run_all_checks\<close>. The summary prints \<open>rejected_count/initial_count*100\<close>, a Python
  true division, which raises ZeroDivisionError when \<open>initial_count\<close> is 0; the rules
  have run and stored their counts by then.
\<close>

definition run_all_checks ::
  "session \<Rightarrow> DataQualityChecker \<Rightarrow> DataFrame
     \<Rightarrow> (error + DataFrame \<times> DataFrame list) \<times> DataQualityChecker" where
  "run_all_checks s self df =
     (let initial_count = df_count df;
          st1 = run_check (check_null_values s) (Inr (df, []), self);
          st2 = run_check (validate_numeric_ranges s) st1;
          st3 = run_check (validate_datetime_logic s) st2;
          st4 = run_check_if ''trip_duration_minutes''
                  (\<lambda>self df. validate_trip_duration s self df 1 300) st3;
          st5 = run_check_if ''tip_percentage''
                  (\<lambda>self df. validate_tip_percentage s self df 100) st4
      in case st5 of
           (Inl e, self') \<Rightarrow> (Inl e, self')
         | (Inr (df', invalid_dfs), self') \<Rightarrow>
             (let final_count = df_count df';
                  rejected_count = int initial_count - int final_count
              in if initial_count = 0 then (Inl ZeroDivisionError, self')
                 else (Inr (df', invalid_dfs), self')))"

definition get_quality_metrics :: "DataQualityChecker \<Rightarrow> (string \<times> nat) list" where
  "get_quality_metrics self = quality_metrics self"

section \<open>Object storage, the clock and console output\<close>

text \<open>
  The destinations written with \<open>DataFrameWriter.parquet\<close> are external. The storage is
  modelled as the list of datasets it holds, each under the path it was written to,
  together with the list of write calls that reached it. A destination may refuse a
  write: \<open>unwritable\<close> maps such a path to the message of the exception raised (the
  refused write stores nothing). \<open>unreadable\<close> lists the paths from which creating a
  DynamicFrame raises. \<open>stdout\<close> holds the lines printed by the quarantine writers and by
  the error handlers of \<open>main\<close>; \<open>job_commits\<close> counts the calls of \<open>job.commit()\<close>.
\<close>

datatype save_mode = Overwrite | Append

record storage =
  files :: "(string \<times> DataFrame) list"
  write_calls :: "(save_mode \<times> string) list"
  unwritable :: "(string \<times> string) list"
  unreadable :: "(string \<times> string) list"
  stdout :: "string list"
  job_commits :: nat

definition print :: "string \<Rightarrow> storage \<Rightarrow> storage" where
  "print line w = w\<lparr>stdout := stdout w @ [line]\<rparr>"

text \<open>
  \<open>df.write.mode(mode).parquet(path)\<close>. Mode \<open>overwrite\<close> first deletes whatever is stored
  at the path or below it; mode \<open>append\<close> adds to it.
\<close>

definition parquet_write ::
  "save_mode \<Rightarrow> string \<Rightarrow> DataFrame \<Rightarrow> storage \<Rightarrow> error option \<times> storage" where
  "parquet_write mode path df w =
     (let w1 = w\<lparr>write_calls := write_calls w @ [(mode, path)]\<rparr>
      in case map_of (unwritable w) path of
           Some msg \<Rightarrow> (Some (WriteFailed msg), w1)
         | None \<Rightarrow>
             (None,
              w1\<lparr>files :=
                   (case mode of
                      Overwrite \<Rightarrow> filter (\<lambda>(q, d). \<not> prefix path q) (files w)
                    | Append \<Rightarrow> files w) @ [(path, df)]\<rparr>))"

text \<open>What is stored at a path or below it.\<close>

definition stored_at :: "storage \<Rightarrow> string \<Rightarrow> DataFrame list" where
  "stored_at w path = map snd (filter (\<lambda>(q, d). prefix path q) (files w))"

text \<open>
  One reading of \<open>datetime.now()\<close>: its year, its month and its rendering by
  \<open>strftime('%Y%m%d_%H%M%S')\<close>.
\<close>

record datetime =
  now_year :: nat
  now_month :: nat
  now_strftime :: string

text \<open>Python's formatting of a non-negative int in an f-string, plain and as \<open>:02d\<close>.\<close>

definition digit_char :: "nat \<Rightarrow> char" where
  "digit_char d = ''0123456789'' ! d"

fun str_nat :: "nat \<Rightarrow> string" where
  "str_nat n = (if n < 10 then [digit_char n] else str_nat (n div 10) @ [digit_char (n mod 10)])"

definition fmt_02d :: "nat \<Rightarrow> string" where
  "fmt_02d n = (if n < 10 then ''0'' @ str_nat n else str_nat n)"

definition dlq_path :: "string \<Rightarrow> datetime \<Rightarrow> string \<Rightarrow> string" where
  "dlq_path bucket now run_id =
     ''s3://'' @ bucket @ ''/dead-letter-queue/taxi/year='' @ str_nat (now_year now)
       @ ''/month='' @ fmt_02d (now_month now) @ ''/run_id='' @ run_id @ ''/''"

text \<open>\<open>a.union(b)\<close> is positional and needs as many columns on both sides.\<close>

definition df_union :: "DataFrame \<Rightarrow> DataFrame \<Rightarrow> error + DataFrame" where
  "df_union a b =
     (if length (columns a) \<noteq> length (columns b) then Inl (AnalysisException [])
      else Inr (a\<lparr>rows := rows a @ rows b\<rparr>))"

text \<open>\<open>a.unionByName(b, allowMissingColumns=True)\<close>: a column missing on one side is NULL there.\<close>

definition project :: "string list \<Rightarrow> string list \<Rightarrow> cell list \<Rightarrow> cell list" where
  "project src cols r = map (\<lambda>c. case row_get src r c of Some v \<Rightarrow> v | None \<Rightarrow> Null) cols"

definition unionByName :: "DataFrame \<Rightarrow> DataFrame \<Rightarrow> DataFrame" where
  "unionByName a b =
     (let cols = columns a @ filter (\<lambda>c. c \<notin> set (columns a)) (columns b)
      in \<lparr>columns = cols,
          rows = map (project (columns a) cols) (rows a) @ map (project (columns b) cols) (rows b)\<rparr>)"

section \<open>The quarantine writer of DataQualityChecker\<close>

text \<open>The loop that combines the non-empty invalid batches with \<open>union\<close>.\<close>

definition combine_union :: "DataFrame list \<Rightarrow> error + DataFrame option" where
  "combine_union invalid_dfs =
     fold (\<lambda>invalid_df acc.
             case acc of
               Inl e \<Rightarrow> Inl e
             | Inr combined_invalid \<Rightarrow>
                 (if df_count invalid_df > 0
                  then (case combined_invalid of
                          None \<Rightarrow> Inr (Some invalid_df)
                        | Some c \<Rightarrow> and_then (df_union c invalid_df) (\<lambda>u. Inr (Some u)))
                  else Inr combined_invalid))
          invalid_dfs (Inr None)"

text \<open>
  \<open>DataQualityChecker.write_to_dead_letter_queue\<close>. The handler of the write prints the
  error and raises it again.
\<close>

definition checker_write_to_dead_letter_queue ::
  "session \<Rightarrow> datetime \<Rightarrow> DataQualityChecker \<Rightarrow> DataFrame list \<Rightarrow> string option \<Rightarrow> storage
     \<Rightarrow> error option \<times> storage" where
  "checker_write_to_dead_letter_queue s now self invalid_dfs run_id w =
     (if invalid_dfs = [] \<or> list_all (\<lambda>df. df_count df = 0) invalid_dfs
      then (None, print ''No failed records to write to DLQ'' w)
      else
        (let w1 = print (CHR 0x0A # ''Writing failed records to dead-letter queue...'') w
         in case combine_union invalid_dfs of
              Inl e \<Rightarrow> (Some e, w1)
            | Inr None \<Rightarrow> (None, print ''No failed records to write'' w1)
            | Inr (Some combined_invalid) \<Rightarrow>
                (if df_count combined_invalid = 0
                 then (None, print ''No failed records to write'' w1)
                 else
                   (let run_id' = (case run_id of None \<Rightarrow> now_strftime now | Some r \<Rightarrow> r)
                    in case withColumn s ''run_id'' (Lit (Str run_id')) combined_invalid of
                         Inl e \<Rightarrow> (Some e, w1)
                       | Inr stamped \<Rightarrow>
                           (let path = dlq_path (bucket_name self) now run_id';
                                w2 = print (''Writing '' @ str_nat (df_count stamped)
                                              @ '' failed records to: '' @ path) w1
                            in case parquet_write Overwrite path stamped w2 of
                                 (None, w3) \<Rightarrow>
                                   (None, print ''Failed records written successfully to DLQ'' w3)
                               | (Some e, w3) \<Rightarrow>
                                   (Some e,
                                    print (''Error writing to DLQ: ''
                                             @ (case e of WriteFailed msg \<Rightarrow> msg | _ \<Rightarrow> [])) w3))))))"

section \<open>The Glue job (transform/glue_etl_job.py)\<close>

definition add_derived_columns :: "session \<Rightarrow> DataFrame \<Rightarrow> error + DataFrame" where
  "add_derived_columns s df =
     and_then (withColumn s ''trip_duration_minutes''
                 (Div (Sub (UnixTimestamp (Col ''tpep_dropoff_datetime''))
                           (UnixTimestamp (Col ''tpep_pickup_datetime'')))
                      (Lit (Num 60))) df) (\<lambda>df.
     and_then (withColumn s ''tip_percentage''
                 (When (Gt (Col ''fare_amount'') (Lit (Num 0)))
                       (Mul (Div (Col ''tip_amount'') (Col ''fare_amount'')) (Lit (Num 100)))
                       (Lit (Num 0))) df) (\<lambda>df.
     and_then (withColumn s ''quality_check_timestamp'' CurrentTimestamp df) (\<lambda>df.
     and_then (withColumn s ''year'' (Year (Col ''tpep_pickup_datetime'')) df) (\<lambda>df.
     and_then (withColumn s ''month'' (Month (Col ''tpep_pickup_datetime'')) df) (\<lambda>df.
     and_then (withColumn s ''processed_at'' CurrentTimestamp df) (\<lambda>df.
     withColumn s ''etl_job_name'' (Lit (Str ''job-process-taxi-data'')) df))))))"

definition filter_condition :: expr where
  "filter_condition =
     And (And (And (Gt (Col ''trip_distance'') (Lit (Num 0)))
                   (Gt (Col ''fare_amount'') (Lit (Num 0))))
              (Gt (Col ''passenger_count'') (Lit (Num 0))))
         (Gt (Col ''tpep_dropoff_datetime'') (Col ''tpep_pickup_datetime''))"

text \<open>
  \<open>filter_invalid_records\<close> returns the filtered DataFrame and nothing else. Its summary
  prints \<open>removed_count/initial_count*100\<close>, which raises on an empty input.
\<close>

definition filter_invalid_records :: "session \<Rightarrow> DataFrame \<Rightarrow> error + DataFrame" where
  "filter_invalid_records s df =
     (let initial_count = df_count df
      in and_then (df_filter s filter_condition df) (\<lambda>df'.
           let final_count = df_count df';
               removed_count = int initial_count - int final_count
           in if initial_count = 0 then Inl ZeroDivisionError else Inr df'))"

definition required_fields :: "string list" where
  "required_fields =
     [''tpep_pickup_datetime'', ''tpep_dropoff_datetime'', ''passenger_count'',
      ''trip_distance'', ''fare_amount'']"

definition range_condition :: expr where
  "range_condition =
     And (And (And (And (And (Ge (Col ''passenger_count'') (Lit (Num 1)))
                             (Le (Col ''passenger_count'') (Lit (Num 6))))
                        (Ge (Col ''trip_distance'') (Lit (Num (1 / 10)))))
                   (Le (Col ''trip_distance'') (Lit (Num 100))))
              (Ge (Col ''fare_amount'') (Lit (Num (1 / 100)))))
         (Le (Col ''fare_amount'') (Lit (Num 500)))"

definition duration_condition :: expr where
  "duration_condition =
     And (Ge (Col ''trip_duration_minutes'') (Lit (Num 1)))
         (Le (Col ''trip_duration_minutes'') (Lit (Num 300)))"

definition tip_condition :: expr where
  "tip_condition =
     And (Ge (Col ''tip_percentage'') (Lit (Num 0)))
         (Le (Col ''tip_percentage'') (Lit (Num 100)))"

text \<open>
  One check of \<open>run_data_quality_checks\<close>: the rejected rows are tagged and appended to
  \<open>invalid_dfs\<close> when there are any, and \<open>df\<close> becomes \<open>df.filter(valid_cond)\<close>.
\<close>

definition job_check ::
  "session \<Rightarrow> expr \<Rightarrow> expr \<Rightarrow> string \<Rightarrow> DataFrame \<times> DataFrame list
     \<Rightarrow> error + DataFrame \<times> DataFrame list" where
  "job_check s invalid_cond valid_cond reason st =
     (case st of (df, invalid_dfs) \<Rightarrow>
        and_then (and_then (df_filter s invalid_cond df) (failure_columns s reason)) (\<lambda>invalid.
        and_then (df_filter s valid_cond df) (\<lambda>df'.
          Inr (df', if df_count invalid > 0 then invalid_dfs @ [invalid] else invalid_dfs))))"

definition run_data_quality_checks ::
  "session \<Rightarrow> DataFrame \<Rightarrow> error + DataFrame \<times> DataFrame list" where
  "run_data_quality_checks s df =
     (let initial_count = df_count df
      in and_then
           (case null_condition_of required_fields (columns df) of
              None \<Rightarrow> Inr (df, [])
            | Some null_condition \<Rightarrow>
                job_check s null_condition (Not null_condition) ''null_in_required_field'' (df, []))
           (\<lambda>st1.
         and_then
           (job_check s (Not range_condition) range_condition ''numeric_range_violation'' st1)
           (\<lambda>st2.
         and_then
           (if ''trip_duration_minutes'' \<in> set (columns (fst st2))
            then job_check s (Not duration_condition) duration_condition
                   ''invalid_trip_duration'' st2
            else Inr st2)
           (\<lambda>st3.
         and_then
           (if ''tip_percentage'' \<in> set (columns (fst st3))
            then job_check s (Not tip_condition) tip_condition ''invalid_tip_percentage'' st3
            else Inr st3)
           (\<lambda>st4.
              case st4 of (df', invalid_dfs) \<Rightarrow>
                (let final_count = df_count df';
                     rejected_count = int initial_count - int final_count
                 in if initial_count = 0 then Inl ZeroDivisionError
                    else Inr (df', invalid_dfs)))))))"

text \<open>The loop that combines the non-empty invalid batches with \<open>unionByName\<close>.\<close>

definition combine_by_name :: "DataFrame list \<Rightarrow> DataFrame option" where
  "combine_by_name invalid_dfs =
     fold (\<lambda>invalid_df combined_invalid.
             if df_count invalid_df > 0
             then (case combined_invalid of
                     None \<Rightarrow> Some invalid_df
                   | Some c \<Rightarrow> Some (unionByName c invalid_df))
             else combined_invalid)
          invalid_dfs None"

text \<open>
  The job's own \<open>write_to_dead_letter_queue\<close>. Its handler prints the error and goes on:
  "Don't fail the job if DLQ write fails, just log it".
\<close>

definition write_to_dead_letter_queue ::
  "session \<Rightarrow> datetime \<Rightarrow> DataFrame list \<Rightarrow> string \<Rightarrow> string \<Rightarrow> storage
     \<Rightarrow> error option \<times> storage" where
  "write_to_dead_letter_queue s now invalid_dfs bucket run_id w =
     (if invalid_dfs = [] \<or> list_all (\<lambda>df. df_count df = 0) invalid_dfs
      then (None, print ''No failed records to write to DLQ'' w)
      else
        (let w1 = print (CHR 0x0A # ''Writing failed records to dead-letter queue...'') w
         in case combine_by_name invalid_dfs of
              None \<Rightarrow> (None, print ''No failed records to write'' w1)
            | Some combined_invalid \<Rightarrow>
                (if df_count combined_invalid = 0
                 then (None, print ''No failed records to write'' w1)
                 else
                   (case withColumn s ''run_id'' (Lit (Str run_id)) combined_invalid of
                      Inl e \<Rightarrow> (Some e, w1)
                    | Inr stamped \<Rightarrow>
                        (let path = dlq_path bucket now run_id;
                             w2 = print (''Writing '' @ str_nat (df_count stamped)
                                           @ '' failed records to: '' @ path) w1
                         in case parquet_write Overwrite path stamped w2 of
                              (None, w3) \<Rightarrow>
                                (None, print ''Failed records written successfully to DLQ'' w3)
                            | (Some e, w3) \<Rightarrow>
                                (None,
                                 print ''Continuing job execution despite DLQ write failure''
                                   (print (''Error writing to DLQ: ''
                                             @ (case e of WriteFailed msg \<Rightarrow> msg | _ \<Rightarrow> []))
                                      w3)))))))"

record job_args =
  JOB_NAME :: string
  arg_bucket_name :: string
  source_prefix :: string
  target_prefix :: string

text \<open>
  \<open>main\<close> from step 2 on, given the DataFrame that step 1 read. Step 6 first creates a
  DynamicFrame on the target path and then appends the accepted rows there; either call
  failing is printed, the job is committed and the error raised again. The statistics of
  step 7 are console output only.
\<close>

definition main :: "session \<Rightarrow> datetime \<Rightarrow> job_args \<Rightarrow> DataFrame \<Rightarrow> storage \<Rightarrow> error option \<times> storage" where
  "main s now args df w =
     (let run_id = now_strftime now
      in case and_then (and_then (add_derived_columns s df) (filter_invalid_records s))
                (run_data_quality_checks s) of
           Inl e \<Rightarrow> (Some e, w)
         | Inr (df', invalid_dfs) \<Rightarrow>
             (case write_to_dead_letter_queue s now invalid_dfs (arg_bucket_name args) run_id w of
                (Some e, w1) \<Rightarrow> (Some e, w1)
              | (None, w1) \<Rightarrow>
                  (let target_path = ''s3://'' @ arg_bucket_name args @ ''/'' @ target_prefix args
                   in case map_of (unreadable w1) target_path of
                        Some msg \<Rightarrow>
                          (Some (WriteFailed msg),
                           (print (''Error writing processed data: '' @ msg) w1)
                             \<lparr>job_commits := Suc (job_commits w1)\<rparr>)
                      | None \<Rightarrow>
                          (case parquet_write Append target_path df' w1 of
                             (Some e, w2) \<Rightarrow>
                               (Some e,
                                (print (''Error writing processed data: ''
                                          @ (case e of WriteFailed msg \<Rightarrow> msg | _ \<Rightarrow> [])) w2)
                                  \<lparr>job_commits := Suc (job_commits w2)\<rparr>)
                           | (None, w2) \<Rightarrow>
                               (None,
                                (print ''Data written successfully!'' w2)
                                  \<lparr>job_commits := Suc (job_commits w2)\<rparr>)))))"

section \<open>Predicates used in the proofs\<close>

text \<open>
  A rule returns within a batch when it raises nothing and hands back, as its accepted
  rows, a DataFrame of the same columns with no more rows than it was given.
\<close>

definition returns_within ::
  "DataFrame \<Rightarrow> (error + DataFrame \<times> DataFrame) \<times> DataQualityChecker \<Rightarrow> bool" where
  "returns_within df res =
     (\<exists>valid invalid self'.
        res = (Inr (valid, invalid), self') \<and> columns valid = columns df
        \<and> length (rows valid) \<le> length (rows df))"

definition rule_returns ::
  "(DataQualityChecker \<Rightarrow> DataFrame \<Rightarrow> (error + DataFrame \<times> DataFrame) \<times> DataQualityChecker) \<Rightarrow> bool" where
  "rule_returns check = (\<forall>self df. returns_within df (check self df))"

definition passing ::
  "DataFrame \<Rightarrow> (error + DataFrame \<times> DataFrame list) \<times> DataQualityChecker \<Rightarrow> bool" where
  "passing df0 st =
     (\<exists>df invalid_dfs self.
        st = (Inr (df, invalid_dfs), self) \<and> columns df = columns df0
        \<and> length (rows df) \<le> length (rows df0))"

text \<open>
  What each quarantine writer does with the outcome of its parquet write: the job's
  writer prints and returns, the checker's writer prints and raises again.
\<close>

definition dlq_outcome :: "error option \<times> storage \<Rightarrow> storage" where
  "dlq_outcome pw =
     (case fst pw of
        None \<Rightarrow> print ''Failed records written successfully to DLQ'' (snd pw)
      | Some e \<Rightarrow>
          print ''Continuing job execution despite DLQ write failure''
            (print (''Error writing to DLQ: '' @ (case e of WriteFailed msg \<Rightarrow> msg | _ \<Rightarrow> []))
               (snd pw)))"

definition checker_outcome :: "error option \<times> storage \<Rightarrow> error option \<times> storage" where
  "checker_outcome pw =
     (case fst pw of
        None \<Rightarrow> (None, print ''Failed records written successfully to DLQ'' (snd pw))
      | Some e \<Rightarrow>
          (Some e,
           print (''Error writing to DLQ: '' @ (case e of WriteFailed msg \<Rightarrow> msg | _ \<Rightarrow> []))
             (snd pw)))"

text \<open>
  The cell of a column in the row of a given index, and what one \<open>withColumn\<close> step
  does to a well-formed DataFrame, read through the cells.
\<close>

definition cell_at :: "DataFrame \<Rightarrow> nat \<Rightarrow> string \<Rightarrow> cell" where
  "cell_at df i c = (case row_get (columns df) (rows df ! i) c of Some v \<Rightarrow> v | None \<Rightarrow> Null)"

definition extends :: "session \<Rightarrow> string \<Rightarrow> expr \<Rightarrow> DataFrame \<Rightarrow> DataFrame \<Rightarrow> bool" where
  "extends s name e df df' =
     ((\<forall>r\<in>set (rows df'). length r = length (columns df'))
      \<and> length (rows df') = length (rows df)
      \<and> set (columns df') = insert name (set (columns df))
      \<and> (\<forall>i<length (rows df). \<forall>c.
            row_get (columns df') (rows df' ! i) c =
              (if c = name then Some (eval s (columns df) (rows df ! i) e)
               else row_get (columns df) (rows df ! i) c)))"

text \<open>
  The derived values as the specification words them. A timestamp with its fraction of
  a second dropped keeps its sign and the whole seconds of its magnitude. The duration
  in minutes is taken between the two timestamps so reduced and is absent when either is
  missing; \<open>exact_duration_minutes\<close> is the duration between the timestamps themselves;
  the tip is a percentage of a positive fare, 0 otherwise.
\<close>

definition drop_fraction :: "int \<Rightarrow> int" where
  "drop_fraction t = sgn t * (\<bar>t\<bar> div 1000000)"

definition whole_seconds_duration_minutes :: "cell \<Rightarrow> cell \<Rightarrow> cell" where
  "whole_seconds_duration_minutes pickup dropoff =
     (case (pickup, dropoff) of
        (Ts p, Ts d) \<Rightarrow> Num ((of_int (drop_fraction d) - of_int (drop_fraction p)) / 60)
      | _ \<Rightarrow> Null)"

definition tip_ratio :: "cell \<Rightarrow> cell \<Rightarrow> cell" where
  "tip_ratio tip fare =
     (case fare of
        Num f \<Rightarrow> if f > 0 then (case tip of Num t \<Rightarrow> Num (t / f * 100) | _ \<Rightarrow> Null) else Num 0
      | _ \<Rightarrow> Num 0)"

definition exact_duration_minutes :: "cell \<Rightarrow> cell \<Rightarrow> cell" where
  "exact_duration_minutes pickup dropoff =
     (case (pickup, dropoff) of
        (Ts p, Ts d) \<Rightarrow> Num (of_int (d - p) / 60000000)
      | _ \<Rightarrow> Null)"

text \<open>
  The records the job's pre-filter is said to discard: trip distance, fare or passenger
  count not above 0, or a dropoff that is not after the pickup.
\<close>

fun nonpositive :: "cell option \<Rightarrow> bool" where
  "nonpositive (Some (Num x)) = (x \<le> 0)"
| "nonpositive _ = False"

fun not_after :: "cell option \<Rightarrow> cell option \<Rightarrow> bool" where
  "not_after (Some (Ts d)) (Some (Ts p)) = (d \<le> p)"
| "not_after _ _ = False"

definition discarded :: "string list \<Rightarrow> cell list \<Rightarrow> bool" where
  "discarded cols r =
     (nonpositive (row_get cols r ''trip_distance'')
      \<or> nonpositive (row_get cols r ''fare_amount'')
      \<or> nonpositive (row_get cols r ''passenger_count'')
      \<or> not_after (row_get cols r ''tpep_dropoff_datetime'')
                    (row_get cols r ''tpep_pickup_datetime''))"

text \<open>
  The count a rule stores on a batch without rows, when the rule is evaluated at all.
\<close>

definition stored_zero :: "bool \<Rightarrow> string \<Rightarrow> (string \<times> nat) list \<Rightarrow> (string \<times> nat) list" where
  "stored_zero evaluated metric metrics =
     (if evaluated then AList.update metric 0 metrics else metrics)"

section \<open>Example batches\<close>

definition empty_storage :: storage where
  "empty_storage =
     \<lparr>files = [], write_calls = [], unwritable = [], unreadable = [], stdout = [],
      job_commits = 0\<rparr>"

definition example_now :: datetime where
  "example_now = \<lparr>now_year = 2023, now_month = 1, now_strftime = ''20230101_120000''\<rparr>"

text \<open>
  The schema of the unit tests, a session, and two one-trip batches whose tip amount is
  NULL: the first an otherwise valid trip, the second a trip that ends five minutes
  before it starts, with its derived columns.
\<close>

definition example_session :: session where
  "example_session = \<lparr>current_timestamp = 1700000000000000, year_of = (\<lambda>t. 2023), month_of = (\<lambda>t. 1)\<rparr>"

definition sample_schema :: "string list" where
  "sample_schema =
     [''tpep_pickup_datetime'', ''tpep_dropoff_datetime'', ''passenger_count'',
      ''trip_distance'', ''fare_amount'', ''tip_amount'', ''total_amount'',
      ''tolls_amount'', ''extra'', ''mta_tax'']"

definition null_tip_batch :: DataFrame where
  "null_tip_batch =
     createDataFrame
       [[Ts 1672574400000000, Ts 1672575300000000, Num 2, Num (5 / 2), Num (25 / 2), Null,
         Num (31 / 2), Num (1 / 2), Num (1 / 2), Num (1 / 2)]]
       sample_schema"

definition backwards_null_tip_batch :: DataFrame where
  "backwards_null_tip_batch =
     createDataFrame
       [[Ts 1672574400000000, Ts 1672574100000000, Num 2, Num (5 / 2), Num (25 / 2), Null,
         Num (31 / 2), Num (1 / 2), Num (1 / 2), Num (1 / 2), Num (- 5), Null]]
       (sample_schema @ [''trip_duration_minutes'', ''tip_percentage''])"

text \<open>
  Two rejected batches as the rules tag them, the raw batch of a job run (one valid
  trip and one with ten passengers), the job's arguments, a storage whose quarantine
  destination refuses writes, and a storage that holds the quarantine of an earlier run.
\<close>

definition rejected_batch_a :: DataFrame where
  "rejected_batch_a =
     createDataFrame
       [[Ts 1672574400000000, Ts 1672575300000000, Num 7, Num (5 / 2), Num (25 / 2), Num 2,
         Num (31 / 2), Num (1 / 2), Num (1 / 2), Num (1 / 2),
         Str ''numeric_range_violation'', Ts 1700000000000000]]
       (sample_schema @ [''failure_reason'', ''failed_at''])"


definition job_schema :: "string list" where
  "job_schema =
     [''VendorID'', ''tpep_pickup_datetime'', ''tpep_dropoff_datetime'', ''passenger_count'',
      ''trip_distance'', ''fare_amount'', ''tip_amount'', ''total_amount'', ''payment_type'']"

definition job_batch :: DataFrame where
  "job_batch =
     createDataFrame
       [[Num 1, Ts 1672574400000000, Ts 1672575300000000, Num 1, Num (5 / 2), Num (25 / 2),
         Num 2, Num (31 / 2), Num 1],
        [Num 1, Ts 1672588800000000, Ts 1672590300000000, Num 10, Num (7 / 2), Num 15,
         Num 3, Num 19, Num 1]]
       job_schema"

definition example_args :: job_args where
  "example_args =
     \<lparr>JOB_NAME = ''job-process-taxi-data'', arg_bucket_name = ''test-bucket'',
      source_prefix = ''raw/taxi/'', target_prefix = ''processed/taxi/''\<rparr>"

definition broken_dlq_storage :: storage where
  "broken_dlq_storage =
     empty_storage\<lparr>unwritable :=
       [(dlq_path ''test-bucket'' example_now ''20230101_120000'', ''Access Denied'')]\<rparr>"


text \<open>
  A trip of 59.1 seconds whose pickup has a fractional second, and a batch of a
  fifteen-minute trip, a trip without dropoff time and with a fare of 0, and a trip
  picked up half a second before the epoch and dropped off one minute after it.
\<close>

definition subsecond_batch :: DataFrame where
  "subsecond_batch =
     createDataFrame
       [[Num 1, Ts 1672574400900000, Ts 1672574460000000, Num 1, Num (5 / 2), Num (25 / 2),
         Num 2, Num (31 / 2), Num 1]]
       job_schema"

definition derive_batch :: DataFrame where
  "derive_batch =
     createDataFrame
       [[Num 1, Ts 1672574400000000, Ts 1672575300000000, Num 1, Num (5 / 2), Num (25 / 2),
         Num 2, Num (31 / 2), Num 1],
        [Num 2, Ts 1672588800000000, Null, Num 1, Num (7 / 2), Num 0,
         Num 3, Num 3, Num 1],
        [Num 1, Ts (- 500000), Ts 60000000, Num 1, Num 1, Num 5,
         Num 1, Num 6, Num 1]]
       job_schema"

text \<open>
  A raw batch of six trips: a valid one, one for each of the four conditions of the
  pre-filter, and one with ten passengers.
\<close>

definition mixed_job_batch :: DataFrame where
  "mixed_job_batch =
     createDataFrame
       [[Num 1, Ts 1672574400000000, Ts 1672575300000000, Num 1, Num (5 / 2), Num (25 / 2),
         Num 2, Num (31 / 2), Num 1],
        [Num 1, Ts 1672578000000000, Ts 1672579200000000, Num 2, Num 0, Num 25,
         Num 5, Num 31, Num 1],
        [Num 1, Ts 1672581600000000, Ts 1672582200000000, Num 2, Num 5, Num 0,
         Num 0, Num 0, Num 1],
        [Num 2, Ts 1672585200000000, Ts 1672585800000000, Num 0, Num (3 / 2), Num (17 / 2),
         Num (3 / 2), Num (21 / 2), Num 2],
        [Num 2, Ts 1672588800000000, Ts 1672587000000000, Num 4, Num 8, Num 35,
         Num 7, Num 43, Num 1],
        [Num 1, Ts 1672592400000000, Ts 1672593900000000, Num 10, Num (7 / 2), Num 15,
         Num 3, Num 19, Num 1]]
       job_schema"




section \<open>Column resolution never fails inside the checker\<close>

lemma unresolved_Nil_iff: "unresolved cols e = [] \<longleftrightarrow> set (refs e) \<subseteq> set cols"
  by (auto simp: unresolved_def filter_empty_conv)

lemma null_condition_fold_refs:
  "(\<And>c. acc = Some c \<Longrightarrow> set (refs c) \<subseteq> set cols) \<Longrightarrow>
   fold (\<lambda>field null_condition.
             if field \<in> set cols
             then (case null_condition of
                     None \<Rightarrow> Some (IsNull (Col field))
                   | Some c \<Rightarrow> Some (Or c (IsNull (Col field))))
             else null_condition) required acc = Some c' \<Longrightarrow> set (refs c') \<subseteq> set cols"
proof (induction required arbitrary: acc)
  case Nil
  then show ?case by simp
next
  case (Cons f fs)
  show ?case
  proof (rule Cons.IH[OF _ Cons.prems(2)[simplified]])
    fix c
    assume "(if f \<in> set cols then case acc of None \<Rightarrow> Some (IsNull (Col f)) | Some c \<Rightarrow> Some (Or c (IsNull (Col f))) else acc) = Some c"
    then show "set (refs c) \<subseteq> set cols"
      using Cons.prems(1) by (auto split: if_splits option.splits)
  qed
qed

lemma null_condition_of_resolved:
  "null_condition_of required cols = Some c \<Longrightarrow> unresolved cols c = []"
  unfolding null_condition_of_def unresolved_Nil_iff
  by (rule null_condition_fold_refs[where acc=None]) auto

lemma range_condition_fold_refs:
  "set (refs acc) \<subseteq> set cols \<Longrightarrow>
   set (refs (fold (\<lambda>(field, min_val, max_val) range_condition.
             if field \<in> set cols
             then And range_condition
                    (And (Ge (Col field) (Lit (Num min_val))) (Le (Col field) (Lit (Num max_val))))
             else range_condition) ranges acc)) \<subseteq> set cols"
  by (induction ranges arbitrary: acc) (auto split: prod.splits)

lemma range_condition_of_resolved: "unresolved cols (range_condition_of ranges cols) = []"
  unfolding range_condition_of_def unresolved_Nil_iff
  by (rule range_condition_fold_refs) simp

lemma unresolved_Not [simp]: "unresolved cols (Not e) = unresolved cols e"
  by (simp add: unresolved_def)

lemma withColumn_closed:
  "refs e = [] \<Longrightarrow> withColumn s name e df =
     Inr \<lparr>columns = (if name \<in> set (columns df) then columns df else columns df @ [name]),
          rows = map (\<lambda>r. row_with (columns df) name (eval s (columns df) r e) r) (rows df)\<rparr>"
  by (simp add: withColumn_def unresolved_def)

lemma failure_columns_Inr:
  "\<exists>t. failure_columns s reason d = Inr t \<and> df_count t = df_count d"
  by (simp add: failure_columns_def withColumn_closed and_then_def df_count_def)

lemma split_records_resolved:
  assumes "unresolved (columns df) ic = []" and "unresolved (columns df) vc = []"
  shows "\<exists>invalid.
     split_records s ic vc reason metric self df =
       (Inr (df\<lparr>rows := filter (\<lambda>r. eval s (columns df) r vc = Bool True) (rows df)\<rparr>, invalid),
        self\<lparr>quality_metrics := AList.update metric (df_count invalid) (quality_metrics self)\<rparr>)
     \<and> failure_columns s reason
          (df\<lparr>rows := filter (\<lambda>r. eval s (columns df) r ic = Bool True) (rows df)\<rparr>) = Inr invalid
     \<and> df_count invalid = length (filter (\<lambda>r. eval s (columns df) r ic = Bool True) (rows df))"
proof -
  let ?d = "df\<lparr>rows := filter (\<lambda>r. eval s (columns df) r ic = Bool True) (rows df)\<rparr>"
  obtain t where t: "failure_columns s reason ?d = Inr t" "df_count t = df_count ?d"
    using failure_columns_Inr by blast
  show ?thesis
    using assms t by (simp add: split_records_def df_filter_def and_then_def df_count_def)
qed

lemma split_records_returns:
  assumes "unresolved (columns df) ic = []" and "unresolved (columns df) vc = []"
  shows "returns_within df (split_records s ic vc reason metric self df)"
  unfolding returns_within_def
  using split_records_resolved[OF assms, of s reason metric self] by auto

lemma skipped_returns: "returns_within df (Inr (df, d), self)"
  unfolding returns_within_def by simp

lemma check_null_values_returns: "rule_returns (check_null_values s)"
  unfolding rule_returns_def check_null_values_def
  by (simp add: split_records_returns skipped_returns null_condition_of_resolved
      split: option.splits)

lemma validate_numeric_ranges_returns: "rule_returns (validate_numeric_ranges s)"
  unfolding rule_returns_def validate_numeric_ranges_def Let_def
  by (simp add: split_records_returns range_condition_of_resolved)

lemma validate_datetime_logic_returns: "rule_returns (validate_datetime_logic s)"
  unfolding rule_returns_def validate_datetime_logic_def Let_def
  by (simp add: split_records_returns skipped_returns unresolved_def)

lemma validate_trip_duration_returns:
  "rule_returns (\<lambda>self df. validate_trip_duration s self df lo hi)"
  unfolding rule_returns_def validate_trip_duration_def Let_def
  by (simp add: split_records_returns skipped_returns unresolved_def)

lemma validate_tip_percentage_returns:
  "rule_returns (\<lambda>self df. validate_tip_percentage s self df hi)"
  unfolding rule_returns_def validate_tip_percentage_def Let_def
  by (simp add: split_records_returns skipped_returns unresolved_def)

lemma run_check_passing:
  assumes "rule_returns check" and "passing df0 st"
  shows "passing df0 (run_check check st)"
proof -
  from assms(2) obtain df invalid_dfs self where
    st: "st = (Inr (df, invalid_dfs), self)" and c: "columns df = columns df0"
    and r: "length (rows df) \<le> length (rows df0)"
    unfolding passing_def by blast
  from assms(1) obtain valid invalid self' where
    chk: "check self df = (Inr (valid, invalid), self')" and c': "columns valid = columns df"
    and r': "length (rows valid) \<le> length (rows df)"
    unfolding rule_returns_def returns_within_def by blast
  show ?thesis
    unfolding passing_def using st chk c c' r r' by (simp add: run_check_def)
qed

lemma run_check_if_passing:
  assumes "rule_returns check" and "passing df0 st"
  shows "passing df0 (run_check_if col check st)"
proof -
  from assms(2) obtain df invalid_dfs self where
    st: "st = (Inr (df, invalid_dfs), self)"
    unfolding passing_def by blast
  show ?thesis
    using run_check_passing[OF assms] assms(2) st by (simp add: run_check_if_def)
qed

lemma passing_start: "passing df (Inr (df, []), self)"
  unfolding passing_def by simp

lemma run_all_checks_rules_return:
  "passing df
     (run_check_if ''tip_percentage'' (\<lambda>self df. validate_tip_percentage s self df 100)
       (run_check_if ''trip_duration_minutes'' (\<lambda>self df. validate_trip_duration s self df 1 300)
         (run_check (validate_datetime_logic s)
           (run_check (validate_numeric_ranges s)
             (run_check (check_null_values s) (Inr (df, []), self))))))"
  by (intro run_check_if_passing run_check_passing passing_start check_null_values_returns
      validate_numeric_ranges_returns validate_datetime_logic_returns
      validate_trip_duration_returns validate_tip_percentage_returns)

section \<open>The storage and the quarantine writers\<close>

lemma files_print [simp]: "files (print line w) = files w"
  and write_calls_print [simp]: "write_calls (print line w) = write_calls w"
  and unwritable_print [simp]: "unwritable (print line w) = unwritable w"
  and unreadable_print [simp]: "unreadable (print line w) = unreadable w"
  and stdout_print [simp]: "stdout (print line w) = stdout w @ [line]"
  by (simp_all add: print_def)


lemma parquet_write_env [simp]:
  "unwritable (snd (parquet_write mode path df w)) = unwritable w"
  "unreadable (snd (parquet_write mode path df w)) = unreadable w"
  by (auto simp: parquet_write_def Let_def split: option.splits save_mode.splits)

lemma parquet_write_refused:
  "map_of (unwritable w) path = Some msg \<Longrightarrow>
   parquet_write mode path df w
     = (Some (WriteFailed msg), w\<lparr>write_calls := write_calls w @ [(mode, path)]\<rparr>)"
  by (simp add: parquet_write_def Let_def)

lemma parquet_write_accepted:
  "map_of (unwritable w) path = None \<Longrightarrow>
   fst (parquet_write mode path df w) = None
   \<and> (path, df) \<in> set (files (snd (parquet_write mode path df w)))
   \<and> (mode, path) \<in> set (write_calls (snd (parquet_write mode path df w)))"
  by (simp add: parquet_write_def Let_def)

lemma parquet_overwrite_replaces:
  "map_of (unwritable w) path = None \<Longrightarrow>
   stored_at (snd (parquet_write Overwrite path df w)) path = [df]"
  by (simp add: parquet_write_def Let_def stored_at_def filter_empty_conv split_def)

lemma df_count_unionByName: "df_count (unionByName a b) = df_count a + df_count b"
  by (simp add: unionByName_def df_count_def Let_def)

lemma combine_by_name_fold:
  assumes "\<And>c. acc = Some c \<Longrightarrow> df_count c > 0"
    and "acc \<noteq> None \<or> \<not> list_all (\<lambda>df. df_count df = 0) dfs"
  shows "\<exists>c. fold (\<lambda>invalid_df combined_invalid.
             if df_count invalid_df > 0
             then (case combined_invalid of
                     None \<Rightarrow> Some invalid_df
                   | Some c \<Rightarrow> Some (unionByName c invalid_df))
             else combined_invalid) dfs acc = Some c \<and> df_count c > 0"
  using assms
proof (induction dfs arbitrary: acc)
  case Nil
  then show ?case by auto
next
  case (Cons d ds)
  show ?case
    unfolding fold_Cons comp_apply
  proof (rule Cons.IH)
    fix c
    assume "(if 0 < df_count d then case acc of None \<Rightarrow> Some d | Some c \<Rightarrow> Some (unionByName c d) else acc) = Some c"
    then show "0 < df_count c"
      using Cons.prems(1) by (auto simp: df_count_unionByName split: if_splits option.splits)
  next
    show "(if 0 < df_count d then case acc of None \<Rightarrow> Some d | Some c \<Rightarrow> Some (unionByName c d) else acc) \<noteq> None
          \<or> \<not> list_all (\<lambda>df. df_count df = 0) ds"
      using Cons.prems(2) by (auto split: option.splits)
  qed
qed

lemma combine_by_name_nonempty:
  "\<not> list_all (\<lambda>df. df_count df = 0) dfs \<Longrightarrow>
   \<exists>c. combine_by_name dfs = Some c \<and> df_count c > 0"
  unfolding combine_by_name_def by (rule combine_by_name_fold) auto

lemma withColumn_Lit:
  "\<exists>d. withColumn s name (Lit v) df = Inr d \<and> df_count d = df_count df"
  by (simp add: withColumn_def unresolved_def df_count_def)

lemma dlq_case_outcome:
  "(case pw of
      (None, w3) \<Rightarrow> (None, print ''Failed records written successfully to DLQ'' w3)
    | (Some e, w3) \<Rightarrow>
        (None,
         print ''Continuing job execution despite DLQ write failure''
           (print (''Error writing to DLQ: '' @ (case e of WriteFailed msg \<Rightarrow> msg | _ \<Rightarrow> []))
              w3)))
   = (None, dlq_outcome pw)"
  by (cases pw; cases "fst pw") (simp_all add: dlq_outcome_def)

lemma write_to_dead_letter_queue_attempts:
  assumes "\<not> list_all (\<lambda>df. df_count df = 0) invalid_dfs"
  shows "\<exists>stamped line.
     write_to_dead_letter_queue s now invalid_dfs bucket run_id w =
       (None,
        dlq_outcome
          (parquet_write Overwrite (dlq_path bucket now run_id) stamped
             (print line
                (print (CHR 0x0A # ''Writing failed records to dead-letter queue...'') w))))"
proof -
  from assms have ne: "invalid_dfs \<noteq> []" by auto
  obtain c where c: "combine_by_name invalid_dfs = Some c" "df_count c > 0"
    using combine_by_name_nonempty[OF assms] by blast
  obtain d where d: "withColumn s ''run_id'' (Lit (Str run_id)) c = Inr d" "df_count d = df_count c"
    using withColumn_Lit by blast
  have "write_to_dead_letter_queue s now invalid_dfs bucket run_id w =
       (None,
        dlq_outcome
          (parquet_write Overwrite (dlq_path bucket now run_id) d
             (print (''Writing '' @ str_nat (df_count d) @ '' failed records to: ''
                       @ dlq_path bucket now run_id)
                (print (CHR 0x0A # ''Writing failed records to dead-letter queue...'') w))))"
    unfolding write_to_dead_letter_queue_def Let_def
    using assms ne c d by (simp only: dlq_case_outcome simp_thms if_False option.case sum.case)
      simp
  then show ?thesis by blast
qed

lemma write_to_dead_letter_queue_returns:
  "fst (write_to_dead_letter_queue s now invalid_dfs bucket run_id w) = None"
proof (cases "list_all (\<lambda>df. df_count df = 0) invalid_dfs")
  case True
  then show ?thesis by (simp add: write_to_dead_letter_queue_def)
next
  case False
  from write_to_dead_letter_queue_attempts[OF False, of s now bucket run_id w]
  show ?thesis by auto
qed

lemma dlq_outcome_env [simp]:
  "unwritable (dlq_outcome pw) = unwritable (snd pw)"
  "unreadable (dlq_outcome pw) = unreadable (snd pw)"
  by (simp_all add: dlq_outcome_def split: option.splits)

lemma write_to_dead_letter_queue_env:
  "unwritable (snd (write_to_dead_letter_queue s now invalid_dfs bucket run_id w)) = unwritable w
   \<and> unreadable (snd (write_to_dead_letter_queue s now invalid_dfs bucket run_id w)) = unreadable w"
proof (cases "list_all (\<lambda>df. df_count df = 0) invalid_dfs")
  case True
  then show ?thesis by (simp add: write_to_dead_letter_queue_def)
next
  case False
  from write_to_dead_letter_queue_attempts[OF False, of s now bucket run_id w]
  show ?thesis by auto
qed

lemma write_to_dead_letter_queue_logs:
  assumes "\<not> list_all (\<lambda>df. df_count df = 0) invalid_dfs"
    and "map_of (unwritable w) (dlq_path bucket now run_id) = Some msg"
  shows "''Error writing to DLQ: '' @ msg
           \<in> set (stdout (snd (write_to_dead_letter_queue s now invalid_dfs bucket run_id w)))"
proof -
  from write_to_dead_letter_queue_attempts[OF assms(1), of s now bucket run_id w]
  show ?thesis
    using assms(2) by (auto simp: parquet_write_refused dlq_outcome_def)
qed


lemma write_to_dead_letter_queue_replaces:
  assumes "\<not> list_all (\<lambda>df. df_count df = 0) invalid_dfs"
    and "map_of (unwritable w) (dlq_path bucket now run_id) = None"
  shows "length (stored_at (snd (write_to_dead_letter_queue s now invalid_dfs bucket run_id w))
                  (dlq_path bucket now run_id)) = 1"
proof -
  have st: "stored_at (print line w') p = stored_at w' p" for line w' p
    by (simp add: stored_at_def)
  from write_to_dead_letter_queue_attempts[OF assms(1), of s now bucket run_id w]
  show ?thesis
    using assms(2)
    by (auto simp: dlq_outcome_def st parquet_overwrite_replaces split: option.splits)
qed

lemma checker_case_outcome:
  "(case pw of
      (None, w3) \<Rightarrow> (None, print ''Failed records written successfully to DLQ'' w3)
    | (Some e, w3) \<Rightarrow>
        (Some e,
         print (''Error writing to DLQ: '' @ (case e of WriteFailed msg \<Rightarrow> msg | _ \<Rightarrow> [])) w3))
   = checker_outcome pw"
  by (cases pw; cases "fst pw") (simp_all add: checker_outcome_def)




section \<open>Adding a column to a well-formed DataFrame\<close>

lemma map_of_zip_replace:
  "length cols = length r \<Longrightarrow>
   map_of (zip cols (map (\<lambda>(c, x). if c = name then v else x) (zip cols r))) c =
     (if c = name \<and> name \<in> set cols then Some v else map_of (zip cols r) c)"
  by (induction cols r rule: list_induct2) auto

lemma row_get_row_with:
  assumes "length r = length cols"
  shows "row_get (if name \<in> set cols then cols else cols @ [name]) (row_with cols name v r) c =
           (if c = name then Some v else row_get cols r c)"
proof (cases "name \<in> set cols")
  case True
  then show ?thesis
    using map_of_zip_replace[OF assms[symmetric], of name v c]
    by (simp add: row_get_def row_with_def)
next
  case False
  have none: "map_of (zip cols r) k = None" if "k \<notin> set cols" for k
    using that assms by (simp add: map_of_zip_is_None)
  have "zip (cols @ [name]) (r @ [v]) = zip cols r @ [(name, v)]"
    using assms by simp
  then show ?thesis
    using False none[of name] none[of c]
    by (cases "c \<in> set cols")
       (auto simp: row_get_def row_with_def map_add_def split: option.splits)
qed

lemma length_row_with:
  "length r = length cols \<Longrightarrow>
   length (row_with cols name v r) = length (if name \<in> set cols then cols else cols @ [name])"
  by (simp add: row_with_def)

lemma withColumn_extends:
  assumes "\<forall>r\<in>set (rows df). length r = length (columns df)"
    and "set (refs e) \<subseteq> set (columns df)"
  shows "\<exists>df'. withColumn s name e df = Inr df' \<and> extends s name e df df'"
proof -
  let ?df' = "\<lparr>columns = (if name \<in> set (columns df) then columns df else columns df @ [name]),
               rows = map (\<lambda>r. row_with (columns df) name (eval s (columns df) r e) r) (rows df)\<rparr>"
  have eq: "withColumn s name e df = Inr ?df'"
    using assms(2) by (simp add: withColumn_def unresolved_Nil_iff)
  have "extends s name e df ?df'"
    unfolding extends_def using assms(1)
    by (auto simp: length_row_with row_get_row_with simp del: row_get_def)
  with eq show ?thesis by blast
qed

lemma eval_cong_rows:
  "\<forall>c\<in>set (refs e). row_get cols r c = row_get cols' r' c \<Longrightarrow>
   eval s cols r e = eval s cols' r' e"
  by (induction e) (simp_all add: ball_Un)

lemma extendsD:
  assumes "extends s name e df df'"
  shows "\<forall>r\<in>set (rows df'). length r = length (columns df')"
    and "length (rows df') = length (rows df)"
    and "set (columns df') = insert name (set (columns df))"
    and "i < length (rows df) \<Longrightarrow>
           row_get (columns df') (rows df' ! i) c =
              (if c = name then Some (eval s (columns df) (rows df ! i) e)
               else row_get (columns df) (rows df ! i) c)"
  using assms unfolding extends_def by simp_all

lemma whole_seconds_drop_fraction: "whole_seconds t = drop_fraction t"
  by (simp add: whole_seconds_def drop_fraction_def sgn_if)

lemma add_derived_columns_view:
  assumes wf: "\<forall>r\<in>set (rows df). length r = length (columns df)"
    and cols: "{''tpep_pickup_datetime'', ''tpep_dropoff_datetime'', ''fare_amount'',
                ''tip_amount''} \<subseteq> set (columns df)"
  shows "\<exists>df'. add_derived_columns s df = Inr df'
          \<and> length (rows df') = length (rows df)
          \<and> (\<forall>i<length (rows df).
                row_get (columns df') (rows df' ! i) ''trip_duration_minutes''
                  = Some (whole_seconds_duration_minutes
                            (cell_at df i ''tpep_pickup_datetime'')
                            (cell_at df i ''tpep_dropoff_datetime''))
              \<and> row_get (columns df') (rows df' ! i) ''tip_percentage''
                  = Some (tip_ratio (cell_at df i ''tip_amount'') (cell_at df i ''fare_amount''))
              \<and> (\<forall>c. c \<notin> {''trip_duration_minutes'', ''tip_percentage'',
                            ''quality_check_timestamp'', ''year'', ''month'', ''processed_at'',
                            ''etl_job_name''}
                     \<longrightarrow> row_get (columns df') (rows df' ! i) c
                           = row_get (columns df) (rows df ! i) c))"
proof -
  let ?e1 = "Div (Sub (UnixTimestamp (Col ''tpep_dropoff_datetime''))
                           (UnixTimestamp (Col ''tpep_pickup_datetime'')))
                      (Lit (Num 60))"
  let ?e2 = "When (Gt (Col ''fare_amount'') (Lit (Num 0)))
                       (Mul (Div (Col ''tip_amount'') (Col ''fare_amount'')) (Lit (Num 100)))
                       (Lit (Num 0))"
  obtain df1 where w1: "withColumn s ''trip_duration_minutes'' ?e1 df = Inr df1"
    and x1: "extends s ''trip_duration_minutes'' ?e1 df df1"
    using withColumn_extends[OF wf, of ?e1 s "''trip_duration_minutes''"] cols by auto
  note d1 = extendsD[OF x1]
  obtain df2 where w2: "withColumn s ''tip_percentage'' ?e2 df1 = Inr df2"
    and x2: "extends s ''tip_percentage'' ?e2 df1 df2"
    using withColumn_extends[OF d1(1), of ?e2 s "''tip_percentage''"] cols d1(3) by auto
  note d2 = extendsD[OF x2]
  obtain df3 where w3: "withColumn s ''quality_check_timestamp'' CurrentTimestamp df2 = Inr df3"
    and x3: "extends s ''quality_check_timestamp'' CurrentTimestamp df2 df3"
    using withColumn_extends[OF d2(1), of CurrentTimestamp s "''quality_check_timestamp''"]
    by auto
  note d3 = extendsD[OF x3]
  obtain df4 where w4: "withColumn s ''year'' (Year (Col ''tpep_pickup_datetime'')) df3 = Inr df4"
    and x4: "extends s ''year'' (Year (Col ''tpep_pickup_datetime'')) df3 df4"
    using withColumn_extends[OF d3(1), of "Year (Col ''tpep_pickup_datetime'')" s "''year''"]
      cols d1(3) d2(3) d3(3) by auto
  note d4 = extendsD[OF x4]
  obtain df5 where w5: "withColumn s ''month'' (Month (Col ''tpep_pickup_datetime'')) df4 = Inr df5"
    and x5: "extends s ''month'' (Month (Col ''tpep_pickup_datetime'')) df4 df5"
    using withColumn_extends[OF d4(1), of "Month (Col ''tpep_pickup_datetime'')" s "''month''"]
      cols d1(3) d2(3) d3(3) d4(3) by auto
  note d5 = extendsD[OF x5]
  obtain df6 where w6: "withColumn s ''processed_at'' CurrentTimestamp df5 = Inr df6"
    and x6: "extends s ''processed_at'' CurrentTimestamp df5 df6"
    using withColumn_extends[OF d5(1), of CurrentTimestamp s "''processed_at''"] by auto
  note d6 = extendsD[OF x6]
  obtain df7 where
    w7: "withColumn s ''etl_job_name'' (Lit (Str ''job-process-taxi-data'')) df6 = Inr df7"
    and x7: "extends s ''etl_job_name'' (Lit (Str ''job-process-taxi-data'')) df6 df7"
    using withColumn_extends[OF d6(1), of "Lit (Str ''job-process-taxi-data'')" s
        "''etl_job_name''"] by auto
  note d7 = extendsD[OF x7]
  have run: "add_derived_columns s df = Inr df7"
    by (simp add: add_derived_columns_def and_then_def w1 w2 w3 w4 w5 w6 w7)
  have len: "length (rows df7) = length (rows df)"
    using d1(2) d2(2) d3(2) d4(2) d5(2) d6(2) d7(2) by simp
  have rows: "row_get (columns df7) (rows df7 ! i) ''trip_duration_minutes''
                  = Some (whole_seconds_duration_minutes
                            (cell_at df i ''tpep_pickup_datetime'')
                            (cell_at df i ''tpep_dropoff_datetime''))
              \<and> row_get (columns df7) (rows df7 ! i) ''tip_percentage''
                  = Some (tip_ratio (cell_at df i ''tip_amount'') (cell_at df i ''fare_amount''))
              \<and> (\<forall>c. c \<notin> {''trip_duration_minutes'', ''tip_percentage'',
                            ''quality_check_timestamp'', ''year'', ''month'', ''processed_at'',
                            ''etl_job_name''}
                     \<longrightarrow> row_get (columns df7) (rows df7 ! i) c
                           = row_get (columns df) (rows df ! i) c)"
    if i: "i < length (rows df)" for i
  proof -
    have i1: "i < length (rows df1)" "i < length (rows df2)" "i < length (rows df3)"
      "i < length (rows df4)" "i < length (rows df5)" "i < length (rows df6)"
      using i d1(2) d2(2) d3(2) d4(2) d5(2) d6(2) by simp_all
    have v7: "row_get (columns df7) (rows df7 ! i) c =
        (if c = ''etl_job_name''
         then Some (eval s (columns df6) (rows df6 ! i) (Lit (Str ''job-process-taxi-data'')))
         else if c = ''processed_at'' then Some (eval s (columns df5) (rows df5 ! i) CurrentTimestamp)
         else if c = ''month'' then Some (eval s (columns df4) (rows df4 ! i) (Month (Col ''tpep_pickup_datetime'')))
         else if c = ''year'' then Some (eval s (columns df3) (rows df3 ! i) (Year (Col ''tpep_pickup_datetime'')))
         else if c = ''quality_check_timestamp''
         then Some (eval s (columns df2) (rows df2 ! i) CurrentTimestamp)
         else if c = ''tip_percentage'' then Some (eval s (columns df1) (rows df1 ! i) ?e2)
         else if c = ''trip_duration_minutes'' then Some (eval s (columns df) (rows df ! i) ?e1)
         else row_get (columns df) (rows df ! i) c)" for c
      using d7(4)[OF i1(6), of c] d6(4)[OF i1(5), of c] d5(4)[OF i1(4), of c]
        d4(4)[OF i1(3), of c] d3(4)[OF i1(2), of c] d2(4)[OF i1(1), of c] d1(4)[OF i, of c]
      by (simp del: eval.simps)
    have "eval s (columns df1) (rows df1 ! i) ?e2 = eval s (columns df) (rows df ! i) ?e2"
      by (rule eval_cong_rows) (simp add: d1(4)[OF i])
    moreover have "eval s (columns df) (rows df ! i) ?e2
        = tip_ratio (cell_at df i ''tip_amount'') (cell_at df i ''fare_amount'')"
      by (cases "cell_at df i ''fare_amount''"; cases "cell_at df i ''tip_amount''")
         (auto simp: tip_ratio_def cell_at_def)
    moreover have "eval s (columns df) (rows df ! i) ?e1
        = whole_seconds_duration_minutes (cell_at df i ''tpep_pickup_datetime'')
            (cell_at df i ''tpep_dropoff_datetime'')"
      by (cases "cell_at df i ''tpep_pickup_datetime''"; cases "cell_at df i ''tpep_dropoff_datetime''")
         (auto simp: whole_seconds_duration_minutes_def cell_at_def whole_seconds_drop_fraction)
    ultimately show ?thesis
      by (simp add: v7 del: eval.simps)
  qed
  from run len rows show ?thesis by blast
qed

section \<open>The pre-filter of the job\<close>

lemma sql_and_False_right [simp]: "sql_and x (Bool False) = Bool False"
proof (cases x)
  case (Bool b)
  then show ?thesis by (cases b) simp_all
qed simp_all

lemma nonpositive_gt:
  "nonpositive (row_get cols r c) \<Longrightarrow> eval s cols r (Gt (Col c) (Lit (Num 0))) = Bool False"
  by (cases "row_get cols r c" rule: nonpositive.cases) auto

lemma not_after_gt:
  "not_after (row_get cols r d) (row_get cols r p) \<Longrightarrow> eval s cols r (Gt (Col d) (Col p)) = Bool False"
  by (cases "(row_get cols r d, row_get cols r p)" rule: not_after.cases) auto

lemma discarded_not_kept:
  "discarded cols r \<Longrightarrow> eval s cols r filter_condition = Bool False"
  unfolding discarded_def filter_condition_def
  using nonpositive_gt not_after_gt
  by (auto simp del: eval.simps(1,9) simp add: eval.simps(5))

lemma and_then_Inr: "and_then m f = Inr y \<longleftrightarrow> (\<exists>x. m = Inr x \<and> f x = Inr y)"
  by (cases m) (simp_all add: and_then_def)

lemma withColumn_reshape:
  "withColumn s n e df = Inr d \<Longrightarrow>
   withColumn s n e (df\<lparr>rows := rs\<rparr>)
     = Inr (d\<lparr>rows := map (\<lambda>r. row_with (columns df) n (eval s (columns df) r e) r) rs\<rparr>)
   \<and> columns d = (if n \<in> set (columns df) then columns df else columns df @ [n])"
  by (auto simp: withColumn_def split: if_splits)

lemma add_derived_columns_rows:
  assumes "add_derived_columns s df = Inr D"
  shows "\<exists>g. \<forall>rs. add_derived_columns s (df\<lparr>rows := rs\<rparr>) = Inr (D\<lparr>rows := map g rs\<rparr>)"
proof -
  let ?e1 = "Div (Sub (UnixTimestamp (Col ''tpep_dropoff_datetime''))
                           (UnixTimestamp (Col ''tpep_pickup_datetime'')))
                      (Lit (Num 60))"
  let ?e2 = "When (Gt (Col ''fare_amount'') (Lit (Num 0)))
                       (Mul (Div (Col ''tip_amount'') (Col ''fare_amount'')) (Lit (Num 100)))
                       (Lit (Num 0))"
  from assms obtain d1 d2 d3 d4 d5 d6 where
    w1: "withColumn s ''trip_duration_minutes'' ?e1 df = Inr d1"
    and w2: "withColumn s ''tip_percentage'' ?e2 d1 = Inr d2"
    and w3: "withColumn s ''quality_check_timestamp'' CurrentTimestamp d2 = Inr d3"
    and w4: "withColumn s ''year'' (Year (Col ''tpep_pickup_datetime'')) d3 = Inr d4"
    and w5: "withColumn s ''month'' (Month (Col ''tpep_pickup_datetime'')) d4 = Inr d5"
    and w6: "withColumn s ''processed_at'' CurrentTimestamp d5 = Inr d6"
    and w7: "withColumn s ''etl_job_name'' (Lit (Str ''job-process-taxi-data'')) d6 = Inr D"
    unfolding add_derived_columns_def and_then_Inr by blast
  let ?g1 = "\<lambda>r. row_with (columns df) ''trip_duration_minutes'' (eval s (columns df) r ?e1) r"
  let ?g2 = "\<lambda>r. row_with (columns d1) ''tip_percentage'' (eval s (columns d1) r ?e2) r"
  let ?g3 = "\<lambda>r. row_with (columns d2) ''quality_check_timestamp''
                    (eval s (columns d2) r CurrentTimestamp) r"
  let ?g4 = "\<lambda>r. row_with (columns d3) ''year''
                    (eval s (columns d3) r (Year (Col ''tpep_pickup_datetime''))) r"
  let ?g5 = "\<lambda>r. row_with (columns d4) ''month''
                    (eval s (columns d4) r (Month (Col ''tpep_pickup_datetime''))) r"
  let ?g6 = "\<lambda>r. row_with (columns d5) ''processed_at''
                    (eval s (columns d5) r CurrentTimestamp) r"
  let ?g7 = "\<lambda>r. row_with (columns d6) ''etl_job_name''
                    (eval s (columns d6) r (Lit (Str ''job-process-taxi-data''))) r"
  have "add_derived_columns s (df\<lparr>rows := rs\<rparr>)
          = Inr (D\<lparr>rows := map (\<lambda>r. ?g7 (?g6 (?g5 (?g4 (?g3 (?g2 (?g1 r))))))) rs\<rparr>)" for rs
  proof -
    note r1 = withColumn_reshape[OF w1, of rs, THEN conjunct1]
    note r2 = withColumn_reshape[OF w2, of "map ?g1 rs", THEN conjunct1]
    note r3 = withColumn_reshape[OF w3, of "map ?g2 (map ?g1 rs)", THEN conjunct1]
    note r4 = withColumn_reshape[OF w4, of "map ?g3 (map ?g2 (map ?g1 rs))", THEN conjunct1]
    note r5 = withColumn_reshape[OF w5, of "map ?g4 (map ?g3 (map ?g2 (map ?g1 rs)))",
        THEN conjunct1]
    note r6 = withColumn_reshape[OF w6,
        of "map ?g5 (map ?g4 (map ?g3 (map ?g2 (map ?g1 rs))))", THEN conjunct1]
    note r7 = withColumn_reshape[OF w7,
        of "map ?g6 (map ?g5 (map ?g4 (map ?g3 (map ?g2 (map ?g1 rs)))))", THEN conjunct1]
    have "add_derived_columns s (df\<lparr>rows := rs\<rparr>)
            = Inr (D\<lparr>rows := map ?g7 (map ?g6 (map ?g5 (map ?g4 (map ?g3 (map ?g2
                     (map ?g1 rs))))))\<rparr>)"
      unfolding add_derived_columns_def and_then_def
      by (simp only: r1 r2 r3 r4 r5 r6 r7 sum.case)
    then show ?thesis by (simp add: comp_def)
  qed
  then show ?thesis by blast
qed

lemma derived_row_keeps_filter_columns:
  assumes wf: "length r = length (columns df)"
    and cols: "{''tpep_pickup_datetime'', ''tpep_dropoff_datetime'', ''fare_amount'',
                ''tip_amount''} \<subseteq> set (columns df)"
    and g: "add_derived_columns s (df\<lparr>rows := [r]\<rparr>) = Inr (D\<lparr>rows := [r']\<rparr>)"
  shows "eval s (columns D) r' filter_condition = eval s (columns df) r filter_condition"
proof -
  let ?df1 = "df\<lparr>rows := [r]\<rparr>"
  have wf1: "\<forall>x\<in>set (rows ?df1). length x = length (columns ?df1)"
    using wf by simp
  have cols1: "{''tpep_pickup_datetime'', ''tpep_dropoff_datetime'', ''fare_amount'',
                ''tip_amount''} \<subseteq> set (columns ?df1)"
    using cols by simp
  from add_derived_columns_view[OF wf1 cols1, of s] g
  have keep: "c \<notin> {''trip_duration_minutes'', ''tip_percentage'',
                            ''quality_check_timestamp'', ''year'', ''month'', ''processed_at'',
                            ''etl_job_name''}
        \<Longrightarrow> row_get (columns D) r' c = row_get (columns df) r c" for c
    by auto
  show ?thesis
    by (rule eval_cong_rows) (simp add: filter_condition_def keep)
qed

lemma failure_columns_empty:
  "rows d = [] \<Longrightarrow> \<exists>t. failure_columns s reason d = Inr t \<and> df_count t = 0"
  using failure_columns_Inr[of s reason d] by (auto simp: df_count_def)

lemma job_check_empty:
  assumes "rows df = []" and "unresolved (columns df) ic = []" and "unresolved (columns df) vc = []"
  shows "job_check s ic vc reason (df, invalid_dfs) = Inr (df, invalid_dfs)"
proof -
  have f: "df_filter s c df = Inr df" if "unresolved (columns df) c = []" for c
    using that assms(1) by (simp add: df_filter_def)
  obtain t where t: "failure_columns s reason df = Inr t" "df_count t = 0"
    using failure_columns_empty[OF assms(1)] by blast
  show ?thesis
    by (simp add: job_check_def and_then_def f assms t)
qed

lemma run_data_quality_checks_empty:
  assumes "rows df = []"
    and "{''passenger_count'', ''trip_distance'', ''fare_amount''} \<subseteq> set (columns df)"
  shows "run_data_quality_checks s df = Inl ZeroDivisionError"
proof -
  have rc: "unresolved (columns df) range_condition = []"
    using assms(2) by (simp add: unresolved_def range_condition_def)
  have dc: "''trip_duration_minutes'' \<in> set (columns df) \<Longrightarrow>
              unresolved (columns df) duration_condition = []"
    by (simp add: unresolved_def duration_condition_def)
  have tc: "''tip_percentage'' \<in> set (columns df) \<Longrightarrow>
              unresolved (columns df) tip_condition = []"
    by (simp add: unresolved_def tip_condition_def)
  have s1: "(case null_condition_of required_fields (columns df) of
              None \<Rightarrow> Inr (df, [])
            | Some null_condition \<Rightarrow>
                job_check s null_condition (Not null_condition) ''null_in_required_field'' (df, []))
            = Inr (df, [])"
    using assms(1)
    by (auto split: option.splits simp: job_check_empty null_condition_of_resolved)
  show ?thesis
    unfolding run_data_quality_checks_def Let_def s1 and_then_def
    using assms(1) rc dc tc
    by (simp add: job_check_empty df_count_def)
qed

lemma withColumn_columns:
  "withColumn s n e df = Inr d \<Longrightarrow> set (columns df) \<subseteq> set (columns d)"
  by (auto simp: withColumn_def split: if_splits)

lemma add_derived_columns_columns:
  assumes "add_derived_columns s df = Inr D"
  shows "set (columns df) \<subseteq> set (columns D)"
proof -
  from assms obtain d1 d2 d3 d4 d5 d6 where
    "withColumn s ''trip_duration_minutes''
       (Div (Sub (UnixTimestamp (Col ''tpep_dropoff_datetime''))
                 (UnixTimestamp (Col ''tpep_pickup_datetime'')))
            (Lit (Num 60))) df = Inr d1"
    "withColumn s ''tip_percentage''
       (When (Gt (Col ''fare_amount'') (Lit (Num 0)))
             (Mul (Div (Col ''tip_amount'') (Col ''fare_amount'')) (Lit (Num 100)))
             (Lit (Num 0))) d1 = Inr d2"
    "withColumn s ''quality_check_timestamp'' CurrentTimestamp d2 = Inr d3"
    "withColumn s ''year'' (Year (Col ''tpep_pickup_datetime'')) d3 = Inr d4"
    "withColumn s ''month'' (Month (Col ''tpep_pickup_datetime'')) d4 = Inr d5"
    "withColumn s ''processed_at'' CurrentTimestamp d5 = Inr d6"
    "withColumn s ''etl_job_name'' (Lit (Str ''job-process-taxi-data'')) d6 = Inr D"
    unfolding add_derived_columns_def and_then_Inr by blast
  then show ?thesis
    by (meson withColumn_columns subset_trans)
qed

lemma filter_invalid_records_rows:
  assumes "set (refs filter_condition) \<subseteq> set (columns d)"
  shows "filter_invalid_records s d =
           (if rows d = [] then Inl ZeroDivisionError
            else Inr (d\<lparr>rows := filter (\<lambda>r. eval s (columns d) r filter_condition = Bool True)
                                   (rows d)\<rparr>))"
  using assms
  by (simp add: filter_invalid_records_def df_filter_def and_then_def Let_def df_count_def
      unresolved_Nil_iff)

lemma refs_filter_condition:
  "set (refs filter_condition) =
     {''trip_distance'', ''fare_amount'', ''passenger_count'', ''tpep_dropoff_datetime'',
      ''tpep_pickup_datetime''}"
  by (auto simp: filter_condition_def)

lemma job_steps_ignore_discarded:
  assumes wf: "\<forall>r\<in>set (rows df). length r = length (columns df)"
    and cols: "{''tpep_pickup_datetime'', ''tpep_dropoff_datetime'', ''passenger_count'',
                ''trip_distance'', ''fare_amount'', ''tip_amount''} \<subseteq> set (columns df)"
  shows "and_then (and_then (add_derived_columns s
                     (df\<lparr>rows := filter (\<lambda>r. \<not> discarded (columns df) r) (rows df)\<rparr>))
                   (filter_invalid_records s)) (run_data_quality_checks s)
       = and_then (and_then (add_derived_columns s df) (filter_invalid_records s))
           (run_data_quality_checks s)"
proof -
  let ?k = "\<lambda>r. eval s (columns df) r filter_condition = Bool True"
  let ?rs1 = "filter (\<lambda>r. \<not> discarded (columns df) r) (rows df)"
  have cols4: "{''tpep_pickup_datetime'', ''tpep_dropoff_datetime'', ''fare_amount'',
                ''tip_amount''} \<subseteq> set (columns df)"
    using cols by simp
  obtain D where adc: "add_derived_columns s df = Inr D"
    using add_derived_columns_view[OF wf cols4, of s] by blast
  obtain g where g: "\<And>rs. add_derived_columns s (df\<lparr>rows := rs\<rparr>) = Inr (D\<lparr>rows := map g rs\<rparr>)"
    using add_derived_columns_rows[OF adc] by blast
  have colsD: "set (columns df) \<subseteq> set (columns D)"
    by (rule add_derived_columns_columns[OF adc])
  have refsD: "set (refs filter_condition) \<subseteq> set (columns (D\<lparr>rows := rs\<rparr>))" for rs
    using cols colsD by (auto simp: refs_filter_condition)
  have kg: "(eval s (columns D) (g r) filter_condition = Bool True) = ?k r"
    if "r \<in> set (rows df)" for r
    using derived_row_keeps_filter_columns[where r=r and df=df and s=s and D=D and r'="g r"]
      cols4 g[of "[r]"] wf that
    by simp
  have fir: "filter_invalid_records s (D\<lparr>rows := map g rs\<rparr>) =
               (if rs = [] then Inl ZeroDivisionError
                else Inr (D\<lparr>rows := map g (filter ?k rs)\<rparr>))"
    if "set rs \<subseteq> set (rows df)" for rs
  proof -
    have "filter (\<lambda>r. eval s (columns D) r filter_condition = Bool True) (map g rs)
            = map g (filter ?k rs)"
      using that kg by (auto simp: filter_map comp_def intro!: arg_cong[where f="map g"] filter_cong)
    then show ?thesis
      by (simp add: filter_invalid_records_rows[OF refsD])
  qed
  have k1: "filter ?k ?rs1 = filter ?k (rows df)"
    using discarded_not_kept[of "columns df" _ s]
    by (auto intro!: filter_cong)
  have empty: "run_data_quality_checks s (D\<lparr>rows := []\<rparr>) = Inl ZeroDivisionError"
    by (rule run_data_quality_checks_empty) (use cols colsD in auto)
  have lhs: "add_derived_columns s (df\<lparr>rows := ?rs1\<rparr>) = Inr (D\<lparr>rows := map g ?rs1\<rparr>)"
    by (rule g)
  have rhs: "add_derived_columns s df = Inr (D\<lparr>rows := map g (rows df)\<rparr>)"
    using g[of "rows df"] by simp
  show ?thesis
  proof (cases "filter ?k (rows df) = []")
    case True
    then have "filter ?k ?rs1 = []" using k1 by simp
    then show ?thesis
      unfolding lhs rhs using True empty
      by (simp add: and_then_def fir)
  next
    case False
    then have "rows df \<noteq> []" by auto
    moreover have "?rs1 \<noteq> []"
      using k1 False by (metis filter.simps(1))
    ultimately show ?thesis
      unfolding lhs rhs using k1
      by (simp add: and_then_def fir)
  qed
qed

section \<open>Where the rules do partition\<close>

text \<open>
  A rule loses no record when its two conditions are complementary on every row of the
  batch. The required-field rule is built from \<open>isNull\<close>, which is never NULL, so it
  always partitions; the numeric range rule partitions the batches on which its
  condition is nowhere NULL.
\<close>

lemma sql_or_Bool: "sql_or (Bool a) (Bool b) = Bool (a \<or> b)"
  by (cases a; cases b) simp_all

lemma null_condition_fold_Bool:
  "(\<And>c. acc = Some c \<Longrightarrow> \<exists>b. eval s cols r c = Bool b) \<Longrightarrow>
   fold (\<lambda>field null_condition.
             if field \<in> set cols
             then (case null_condition of
                     None \<Rightarrow> Some (IsNull (Col field))
                   | Some c \<Rightarrow> Some (Or c (IsNull (Col field))))
             else null_condition) required acc = Some c' \<Longrightarrow> \<exists>b. eval s cols r c' = Bool b"
proof (induction required arbitrary: acc)
  case Nil
  then show ?case by simp
next
  case (Cons f fs)
  show ?case
  proof (rule Cons.IH[OF _ Cons.prems(2)[simplified]])
    fix c
    assume "(if f \<in> set cols then case acc of None \<Rightarrow> Some (IsNull (Col f)) | Some c \<Rightarrow> Some (Or c (IsNull (Col f))) else acc) = Some c"
    then show "\<exists>b. eval s cols r c = Bool b"
      using Cons.prems(1) by (auto simp: sql_or_Bool split: if_splits option.splits)
  qed
qed

lemma null_condition_of_Bool:
  "null_condition_of required cols = Some c \<Longrightarrow> \<exists>b. eval s cols r c = Bool b"
  unfolding null_condition_of_def
  by (rule null_condition_fold_Bool[where acc=None]) auto

lemma split_records_partition:
  assumes res: "unresolved (columns df) ic = []" "unresolved (columns df) vc = []"
    and compl: "\<forall>r\<in>set (rows df).
                  (eval s (columns df) r ic = Bool True) = (eval s (columns df) r vc \<noteq> Bool True)"
    and run: "fst (split_records s ic vc reason metric self df) = Inr (valid, invalid)"
  shows "df_count valid + df_count invalid = df_count df"
proof -
  from split_records_resolved[OF res, of s reason metric self] run
  have v: "rows valid = filter (\<lambda>r. eval s (columns df) r vc = Bool True) (rows df)"
    and i: "df_count invalid
              = length (filter (\<lambda>r. eval s (columns df) r ic = Bool True) (rows df))"
    by auto
  have "filter (\<lambda>r. eval s (columns df) r ic = Bool True) (rows df)
          = filter (\<lambda>r. \<not> eval s (columns df) r vc = Bool True) (rows df)"
    using compl by (auto intro!: filter_cong)
  moreover have "df_count valid
      = length (filter (\<lambda>r. eval s (columns df) r vc = Bool True) (rows df))"
    by (simp add: v df_count_def)
  moreover have "df_count df = length (rows df)"
    by (simp add: df_count_def)
  ultimately show ?thesis
    using sum_length_filter_compl[of "\<lambda>r. eval s (columns df) r vc = Bool True" "rows df"] i
    by simp
qed

lemma check_null_values_partitions:
  assumes "fst (check_null_values s self df) = Inr (valid, invalid)"
  shows "df_count valid + df_count invalid = df_count df"
proof (cases "null_condition_of REQUIRED_FIELDS (columns df)")
  case None
  with assms show ?thesis
    by (auto simp: check_null_values_def createDataFrame_def df_count_def)
next
  case (Some c)
  have compl: "\<forall>r\<in>set (rows df).
      (eval s (columns df) r c = Bool True) = (eval s (columns df) r (Not c) \<noteq> Bool True)"
  proof
    fix r
    obtain b where "eval s (columns df) r c = Bool b"
      using null_condition_of_Bool[OF Some] by blast
    then show "(eval s (columns df) r c = Bool True) = (eval s (columns df) r (Not c) \<noteq> Bool True)"
      by simp
  qed
  from assms Some have run: "fst (split_records s c (Not c) ''null_in_required_field''
      ''null_violations'' self df) = Inr (valid, invalid)"
    by (simp add: check_null_values_def)
  show ?thesis
    by (rule split_records_partition[OF _ _ compl run])
       (simp_all add: null_condition_of_resolved[OF Some])
qed

lemma validate_numeric_ranges_partitions_without_null:
  assumes "\<forall>r\<in>set (rows df). \<exists>b.
             eval s (columns df) r (range_condition_of NUMERIC_RANGES (columns df)) = Bool b"
    and "fst (validate_numeric_ranges s self df) = Inr (valid, invalid)"
  shows "df_count valid + df_count invalid = df_count df"
proof -
  let ?c = "range_condition_of NUMERIC_RANGES (columns df)"
  have compl: "\<forall>r\<in>set (rows df).
      (eval s (columns df) r (Not ?c) = Bool True) = (eval s (columns df) r ?c \<noteq> Bool True)"
    using assms(1) by fastforce
  from assms(2) have run: "fst (split_records s (Not ?c) ?c ''numeric_range_violation''
      ''range_violations'' self df) = Inr (valid, invalid)"
    by (simp add: validate_numeric_ranges_def Let_def)
  show ?thesis
    by (rule split_records_partition[OF _ _ compl run])
       (simp_all add: range_condition_of_resolved)
qed

section \<open>The rules on a batch without rows\<close>

lemma null_condition_fold_None:
  "fold (\<lambda>field null_condition.
             if field \<in> set cols
             then (case null_condition of
                     None \<Rightarrow> Some (IsNull (Col field))
                   | Some c \<Rightarrow> Some (Or c (IsNull (Col field))))
             else null_condition) required acc = None
   \<longleftrightarrow> acc = None \<and> set required \<inter> set cols = {}"
  by (induction required arbitrary: acc) (auto split: option.splits)

lemma null_condition_of_None:
  "null_condition_of required cols = None \<longleftrightarrow> set required \<inter> set cols = {}"
  by (simp add: null_condition_of_def null_condition_fold_None)

lemma split_records_empty:
  assumes "rows df = []"
    and "unresolved (columns df) ic = []" and "unresolved (columns df) vc = []"
  shows "\<exists>invalid.
     split_records s ic vc reason metric self df =
       (Inr (df, invalid),
        self\<lparr>quality_metrics := AList.update metric 0 (quality_metrics self)\<rparr>)
     \<and> df_count invalid = 0"
  using split_records_resolved[OF assms(2,3), of s reason metric self] assms(1)
  by auto

lemma check_null_values_empty:
  assumes "rows df = []"
  shows "\<exists>invalid. check_null_values s self df =
           (Inr (df, invalid),
            self\<lparr>quality_metrics :=
              stored_zero (set REQUIRED_FIELDS \<inter> set (columns df) \<noteq> {}) ''null_violations''
                (quality_metrics self)\<rparr>)
         \<and> df_count invalid = 0"
proof (cases "null_condition_of REQUIRED_FIELDS (columns df)")
  case None
  then have "set REQUIRED_FIELDS \<inter> set (columns df) = {}"
    by (simp add: null_condition_of_None)
  with None show ?thesis
    by (simp add: check_null_values_def stored_zero_def createDataFrame_def df_count_def)
next
  case (Some c)
  then have ne: "set REQUIRED_FIELDS \<inter> set (columns df) \<noteq> {}"
    using null_condition_of_None[of REQUIRED_FIELDS "columns df"] by simp
  have res: "unresolved (columns df) c = []" "unresolved (columns df) (Not c) = []"
    using null_condition_of_resolved[OF Some] by simp_all
  from split_records_empty[OF assms res, of s "''null_in_required_field''" "''null_violations''" self]
  show ?thesis
    using Some ne by (simp add: check_null_values_def stored_zero_def)
qed

lemma validate_numeric_ranges_empty:
  assumes "rows df = []"
  shows "\<exists>invalid. validate_numeric_ranges s self df =
           (Inr (df, invalid),
            self\<lparr>quality_metrics := AList.update ''range_violations'' 0 (quality_metrics self)\<rparr>)
         \<and> df_count invalid = 0"
  unfolding validate_numeric_ranges_def Let_def
  by (rule split_records_empty[OF assms]) (simp_all add: range_condition_of_resolved)

lemma validate_datetime_logic_empty:
  assumes "rows df = []"
  shows "\<exists>invalid. validate_datetime_logic s self df =
           (Inr (df, invalid),
            self\<lparr>quality_metrics :=
              stored_zero (''tpep_pickup_datetime'' \<in> set (columns df)
                           \<and> ''tpep_dropoff_datetime'' \<in> set (columns df))
                ''datetime_violations'' (quality_metrics self)\<rparr>)
         \<and> df_count invalid = 0"
proof (cases "''tpep_pickup_datetime'' \<in> set (columns df)
                \<and> ''tpep_dropoff_datetime'' \<in> set (columns df)")
  case True
  then have res:
    "unresolved (columns df) (Not (Gt (Col ''tpep_dropoff_datetime'') (Col ''tpep_pickup_datetime''))) = []"
    "unresolved (columns df) (Gt (Col ''tpep_dropoff_datetime'') (Col ''tpep_pickup_datetime'')) = []"
    by (simp_all add: unresolved_def)
  from split_records_empty[OF assms res, of s "''invalid_datetime_sequence''"
      "''datetime_violations''" self]
  show ?thesis
    using True by (simp add: validate_datetime_logic_def stored_zero_def Let_def)
next
  case False
  then show ?thesis
    by (auto simp: validate_datetime_logic_def stored_zero_def createDataFrame_def df_count_def)
qed

lemma validate_trip_duration_empty:
  assumes "rows df = []" and "''trip_duration_minutes'' \<in> set (columns df)"
  shows "\<exists>invalid. validate_trip_duration s self df lo hi =
           (Inr (df, invalid),
            self\<lparr>quality_metrics := AList.update ''duration_violations'' 0 (quality_metrics self)\<rparr>)
         \<and> df_count invalid = 0"
proof -
  let ?c = "And (Ge (Col ''trip_duration_minutes'') (Lit (Num lo)))
                (Le (Col ''trip_duration_minutes'') (Lit (Num hi)))"
  have res: "unresolved (columns df) (Not ?c) = []" "unresolved (columns df) ?c = []"
    using assms(2) by (simp_all add: unresolved_def)
  from split_records_empty[OF assms(1) res, of s "''invalid_trip_duration''"
      "''duration_violations''" self]
  show ?thesis
    using assms(2) by (simp add: validate_trip_duration_def Let_def)
qed

lemma validate_tip_percentage_empty:
  assumes "rows df = []" and "''tip_percentage'' \<in> set (columns df)"
  shows "\<exists>invalid. validate_tip_percentage s self df hi =
           (Inr (df, invalid),
            self\<lparr>quality_metrics :=
              AList.update ''tip_percentage_violations'' 0 (quality_metrics self)\<rparr>)
         \<and> df_count invalid = 0"
proof -
  let ?c = "And (Ge (Col ''tip_percentage'') (Lit (Num 0)))
                (Le (Col ''tip_percentage'') (Lit (Num hi)))"
  have res: "unresolved (columns df) (Not ?c) = []" "unresolved (columns df) ?c = []"
    using assms(2) by (simp_all add: unresolved_def)
  from split_records_empty[OF assms(1) res, of s "''invalid_tip_percentage''"
      "''tip_percentage_violations''" self]
  show ?thesis
    using assms(2) by (simp add: validate_tip_percentage_def Let_def)
qed

section \<open>What a quarantine write leaves at its destination\<close>

lemma stored_at_print [simp]: "stored_at (print line w) p = stored_at w p"
  by (simp add: stored_at_def)


lemma combine_union_fold_skip:
  "list_all (\<lambda>df. df_count df = 0) dfs \<Longrightarrow>
   fold (\<lambda>invalid_df acc.
             case acc of
               Inl e \<Rightarrow> Inl e
             | Inr combined_invalid \<Rightarrow>
                 (if df_count invalid_df > 0
                  then (case combined_invalid of
                          None \<Rightarrow> Inr (Some invalid_df)
                        | Some c \<Rightarrow> and_then (df_union c invalid_df) (\<lambda>u. Inr (Some u)))
                  else Inr combined_invalid)) dfs (Inr x) = Inr x"
  by (induction dfs) auto

lemma combine_union_all_empty:
  "list_all (\<lambda>df. df_count df = 0) dfs \<Longrightarrow> combine_union dfs = Inr None"
  unfolding combine_union_def by (rule combine_union_fold_skip)

lemma df_count_df_union: "df_union a b = Inr u \<Longrightarrow> df_count u = df_count a + df_count b"
  by (auto simp: df_union_def df_count_def split: if_splits)

lemma combine_union_fold_pos:
  "(\<And>c. acc = Inr (Some c) \<Longrightarrow> df_count c > 0) \<Longrightarrow>
   fold (\<lambda>invalid_df acc.
             case acc of
               Inl e \<Rightarrow> Inl e
             | Inr combined_invalid \<Rightarrow>
                 (if df_count invalid_df > 0
                  then (case combined_invalid of
                          None \<Rightarrow> Inr (Some invalid_df)
                        | Some c \<Rightarrow> and_then (df_union c invalid_df) (\<lambda>u. Inr (Some u)))
                  else Inr combined_invalid)) dfs acc = Inr (Some c') \<Longrightarrow> df_count c' > 0"
proof (induction dfs arbitrary: acc)
  case Nil
  then show ?case by simp
next
  case (Cons d ds)
  show ?case
  proof (rule Cons.IH[OF _ Cons.prems(2)[simplified]])
    fix c
    assume "(case acc of
               Inl e \<Rightarrow> Inl e
             | Inr combined_invalid \<Rightarrow>
                 (if df_count d > 0
                  then (case combined_invalid of
                          None \<Rightarrow> Inr (Some d)
                        | Some c \<Rightarrow> and_then (df_union c d) (\<lambda>u. Inr (Some u)))
                  else Inr combined_invalid)) = Inr (Some c)"
    then show "0 < df_count c"
      using Cons.prems(1)
      by (auto simp: and_then_def dest: df_count_df_union
          split: sum.splits if_splits option.splits)
  qed
qed

lemma combine_union_pos: "combine_union dfs = Inr (Some c) \<Longrightarrow> df_count c > 0"
  unfolding combine_union_def by (rule combine_union_fold_pos[where acc="Inr None"]) auto


text \<open>
  The checker's writer on a destination that refuses the write: the error is printed and
  handed to the caller, and nothing is stored.
\<close>

lemma checker_write_raises:
  assumes c: "combine_union invalid_dfs = Inr (Some c)"
    and w: "map_of (unwritable w)
              (dlq_path (bucket_name self) now
                 (case run_id of None \<Rightarrow> now_strftime now | Some r \<Rightarrow> r)) = Some msg"
  shows "fst (checker_write_to_dead_letter_queue s now self invalid_dfs run_id w)
           = Some (WriteFailed msg)
       \<and> ''Error writing to DLQ: '' @ msg
            \<in> set (stdout (snd (checker_write_to_dead_letter_queue s now self invalid_dfs
                                   run_id w)))
       \<and> files (snd (checker_write_to_dead_letter_queue s now self invalid_dfs run_id w))
            = files w"
proof -
  let ?rid = "case run_id of None \<Rightarrow> now_strftime now | Some r \<Rightarrow> r"
  have guard: "\<not> (invalid_dfs = [] \<or> list_all (\<lambda>df. df_count df = 0) invalid_dfs)"
    using combine_union_all_empty[of invalid_dfs] c by auto
  have pos: "df_count c \<noteq> 0"
    using combine_union_pos[OF c] by simp
  obtain d where d: "withColumn s ''run_id'' (Lit (Str ?rid)) c = Inr d"
    using withColumn_Lit by blast
  have "checker_write_to_dead_letter_queue s now self invalid_dfs run_id w
               = checker_outcome
             (parquet_write Overwrite (dlq_path (bucket_name self) now ?rid) d
                (print (''Writing '' @ str_nat (df_count d) @ '' failed records to: ''
                          @ dlq_path (bucket_name self) now ?rid)
                   (print (CHR 0x0A # ''Writing failed records to dead-letter queue...'') w)))"
    unfolding checker_write_to_dead_letter_queue_def Let_def
    using guard c pos d
    by (simp only: if_False sum.case option.case checker_case_outcome simp_thms)
  then show ?thesis
    using w by (simp add: checker_outcome_def parquet_write_refused)
qed

section \<open>Record validation: the rules and their order\<close>

text \<open>
  Claim C1 (partition invariant: every rule splits its input into valid and invalid with
  \<open>valid.count + invalid.count = input.count\<close>, also for a NULL in a numeric field that is
  not required). The code does not do this. \<open>validate_numeric_ranges\<close> takes its rejected
  rows with \<open>df.filter(~range_condition)\<close> and its accepted rows with
  \<open>df.filter(range_condition)\<close>; on a trip whose \<open>tip_amount\<close> is NULL the condition is
  NULL, so is its negation, and the trip is in neither output. Evaluated on the batch
  holding that one trip: both outputs are empty and the count stored is 0.
\<close>

theorem numeric_ranges_loses_null_record:
  "validate_numeric_ranges example_session (init_checker ''test-bucket'') null_tip_batch =
     (Inr (createDataFrame [] sample_schema,
           createDataFrame [] (sample_schema @ [''failure_reason'', ''failed_at''])),
      \<lparr>bucket_name = ''test-bucket'', quality_metrics = [(''range_violations'', 0)]\<rparr>)
   \<and> df_count null_tip_batch = 1"
  by code_simp

text \<open>
  Claim C2 (single attribution: a record that violates several rules is in exactly one
  invalid batch, that of the first rule it fails, and is counted once). Evaluated on a
  trip that ends before it starts and lasts minus five minutes, so that the datetime rule
  and the duration rule each reject it when run on it alone, but whose \<open>tip_amount\<close> is
  NULL: the numeric range rule, which runs first, loses it, and \<open>run_all_checks\<close> returns
  no invalid batch at all and five counts of 0.
\<close>

theorem run_all_checks_loses_failing_record:
  "run_all_checks example_session (init_checker ''test-bucket'') backwards_null_tip_batch =
     (Inr (createDataFrame [] (sample_schema @ [''trip_duration_minutes'', ''tip_percentage'']), []),
      \<lparr>bucket_name = ''test-bucket'',
       quality_metrics = [(''null_violations'', 0), (''range_violations'', 0),
         (''datetime_violations'', 0), (''duration_violations'', 0),
         (''tip_percentage_violations'', 0)]\<rparr>)"
  by code_simp

text \<open>The same trip does violate two rules: each of them, run on it alone, rejects it.\<close>

lemma backwards_trip_violates_two_rules:
  "(case fst (validate_datetime_logic example_session (init_checker ''test-bucket'')
                  backwards_null_tip_batch) of
        Inr (valid, invalid) \<Rightarrow> df_count invalid = 1 | Inl e \<Rightarrow> False)
   \<and> (case fst (validate_trip_duration example_session (init_checker ''test-bucket'')
                  backwards_null_tip_batch 1 300) of
        Inr (valid, invalid) \<Rightarrow> df_count invalid = 1 | Inl e \<Rightarrow> False)"
  by code_simp

text \<open>
  Claim C3 (metric sum: the per-rule counts add up to processed minus passed). Evaluated
  on the batch of the one trip with a NULL \<open>tip_amount\<close>: one record processed, none
  passed, no invalid batch, and the counts add up to 0.
\<close>

theorem metric_sum_misses_lost_record:
  "(case run_all_checks example_session (init_checker ''test-bucket'') null_tip_batch of
      (Inr (valid, invalid_dfs), self) \<Rightarrow>
        sum_list (map snd (get_quality_metrics self)) = 0
        \<and> int (df_count null_tip_batch) - int (df_count valid) = 1
        \<and> invalid_dfs = []
    | (Inl e, self) \<Rightarrow> False)"
  by code_simp

text \<open>
  Claim C8 (precondition skip): when the batch has no \<open>trip_duration_minutes\<close> column,
  \<open>validate_trip_duration\<close> returns the batch itself as the valid output, an empty batch
  of the same schema as the invalid output, and the checker unchanged, so that no count
  is stored for the rule; likewise \<open>validate_tip_percentage\<close> without a
  \<open>tip_percentage\<close> column.
\<close>

theorem skipped_rule:
  "(''trip_duration_minutes'' \<notin> set (columns df) \<longrightarrow>
      validate_trip_duration s self df min_minutes max_minutes =
        (Inr (df, createDataFrame [] (columns df)), self))
   \<and> (''tip_percentage'' \<notin> set (columns df) \<longrightarrow>
      validate_tip_percentage s self df max_percentage =
        (Inr (df, createDataFrame [] (columns df)), self))
   \<and> df_count (createDataFrame [] (columns df)) = 0"
  by (simp add: validate_trip_duration_def validate_tip_percentage_def df_count_def createDataFrame_def)

theorem skipped_rule_witness:
  "''trip_duration_minutes'' \<notin> set (columns null_tip_batch)
   \<and> ''tip_percentage'' \<notin> set (columns null_tip_batch)
   \<and> validate_trip_duration example_session (init_checker ''test-bucket'') null_tip_batch 1 300 =
        (Inr (null_tip_batch, createDataFrame [] sample_schema), init_checker ''test-bucket'')
   \<and> validate_tip_percentage example_session (init_checker ''test-bucket'') null_tip_batch 100 =
        (Inr (null_tip_batch, createDataFrame [] sample_schema), init_checker ''test-bucket'')
   \<and> get_quality_metrics (init_checker ''test-bucket'') = []"
  using skipped_rule[of null_tip_batch example_session "init_checker ''test-bucket''" 1 300 100]
  by (simp add: null_tip_batch_def sample_schema_def createDataFrame_def
      get_quality_metrics_def init_checker_def)

text \<open>
  Claim C10 (empty batch): on a batch without rows \<open>run_all_checks\<close> evaluates its rules,
  each rule that is evaluated stores the count 0 under its key (the numeric range rule
  always, the others when their columns exist), and then the summary raises
  ZeroDivisionError: no pair of batches is returned, and the checker is left with the
  counts stored before the raise.
\<close>

theorem run_all_checks_empty_raises:
  "run_all_checks s self (createDataFrame [] schema) =
     (Inl ZeroDivisionError,
      self\<lparr>quality_metrics :=
        stored_zero (''tip_percentage'' \<in> set schema) ''tip_percentage_violations''
         (stored_zero (''trip_duration_minutes'' \<in> set schema) ''duration_violations''
           (stored_zero (''tpep_pickup_datetime'' \<in> set schema
                         \<and> ''tpep_dropoff_datetime'' \<in> set schema) ''datetime_violations''
             (AList.update ''range_violations'' 0
               (stored_zero (set REQUIRED_FIELDS \<inter> set schema \<noteq> {}) ''null_violations''
                 (quality_metrics self)))))\<rparr>)"
proof -
  let ?df = "createDataFrame [] schema"
  have e: "rows ?df = []" and c: "columns ?df = schema"
    by (simp_all add: createDataFrame_def)
  let ?m1 = "stored_zero (set REQUIRED_FIELDS \<inter> set schema \<noteq> {}) ''null_violations''
                 (quality_metrics self)"
  let ?m2 = "AList.update ''range_violations'' 0 ?m1"
  let ?m3 = "stored_zero (''tpep_pickup_datetime'' \<in> set schema
                         \<and> ''tpep_dropoff_datetime'' \<in> set schema) ''datetime_violations'' ?m2"
  let ?m4 = "stored_zero (''trip_duration_minutes'' \<in> set schema) ''duration_violations'' ?m3"
  let ?m5 = "stored_zero (''tip_percentage'' \<in> set schema) ''tip_percentage_violations'' ?m4"
  obtain i1 where r1: "check_null_values s self ?df = (Inr (?df, i1), self\<lparr>quality_metrics := ?m1\<rparr>)"
    and z1: "df_count i1 = 0"
    using check_null_values_empty[OF e, of s self] unfolding c by blast
  have st1: "run_check (check_null_values s) (Inr (?df, []), self)
               = (Inr (?df, []), self\<lparr>quality_metrics := ?m1\<rparr>)"
    using r1 z1 by (simp add: run_check_def)
  obtain i2 where r2: "validate_numeric_ranges s (self\<lparr>quality_metrics := ?m1\<rparr>) ?df
                         = (Inr (?df, i2), self\<lparr>quality_metrics := ?m2\<rparr>)"
    and z2: "df_count i2 = 0"
    using validate_numeric_ranges_empty[OF e, of s "self\<lparr>quality_metrics := ?m1\<rparr>"] by auto
  have st2: "run_check (validate_numeric_ranges s) (Inr (?df, []), self\<lparr>quality_metrics := ?m1\<rparr>)
               = (Inr (?df, []), self\<lparr>quality_metrics := ?m2\<rparr>)"
    using r2 z2 by (simp add: run_check_def)
  obtain i3 where r3: "validate_datetime_logic s (self\<lparr>quality_metrics := ?m2\<rparr>) ?df
                         = (Inr (?df, i3), self\<lparr>quality_metrics := ?m3\<rparr>)"
    and z3: "df_count i3 = 0"
    using validate_datetime_logic_empty[OF e, of s "self\<lparr>quality_metrics := ?m2\<rparr>"]
    unfolding c by auto
  have st3: "run_check (validate_datetime_logic s) (Inr (?df, []), self\<lparr>quality_metrics := ?m2\<rparr>)
               = (Inr (?df, []), self\<lparr>quality_metrics := ?m3\<rparr>)"
    using r3 z3 by (simp add: run_check_def)
  have st4: "run_check_if ''trip_duration_minutes''
                  (\<lambda>self df. validate_trip_duration s self df 1 300)
                  (Inr (?df, []), self\<lparr>quality_metrics := ?m3\<rparr>)
               = (Inr (?df, []), self\<lparr>quality_metrics := ?m4\<rparr>)"
  proof (cases "''trip_duration_minutes'' \<in> set schema")
    case True
    then obtain i4 where r4: "validate_trip_duration s (self\<lparr>quality_metrics := ?m3\<rparr>) ?df 1 300
                         = (Inr (?df, i4), self\<lparr>quality_metrics := ?m4\<rparr>)"
      and z4: "df_count i4 = 0"
      using validate_trip_duration_empty[OF e, of s "self\<lparr>quality_metrics := ?m3\<rparr>" 1 300]
      unfolding c by (auto simp: stored_zero_def)
    show ?thesis
      using True r4 z4 by (simp add: run_check_if_def run_check_def c)
  next
    case False
    then show ?thesis
      by (simp add: run_check_if_def c stored_zero_def)
  qed
  have st5: "run_check_if ''tip_percentage''
                  (\<lambda>self df. validate_tip_percentage s self df 100)
                  (Inr (?df, []), self\<lparr>quality_metrics := ?m4\<rparr>)
               = (Inr (?df, []), self\<lparr>quality_metrics := ?m5\<rparr>)"
  proof (cases "''tip_percentage'' \<in> set schema")
    case True
    then obtain i5 where r5: "validate_tip_percentage s (self\<lparr>quality_metrics := ?m4\<rparr>) ?df 100
                         = (Inr (?df, i5), self\<lparr>quality_metrics := ?m5\<rparr>)"
      and z5: "df_count i5 = 0"
      using validate_tip_percentage_empty[OF e, of s "self\<lparr>quality_metrics := ?m4\<rparr>" 100]
      unfolding c by (auto simp: stored_zero_def)
    show ?thesis
      using True r5 z5 by (simp add: run_check_if_def run_check_def c)
  next
    case False
    then show ?thesis
      by (simp add: run_check_if_def c stored_zero_def)
  qed
  show ?thesis
    unfolding run_all_checks_def Let_def st1 st2 st3 st4 st5
    by (simp add: df_count_def e)
qed

theorem run_all_checks_empty_raises_witness:
  "run_all_checks example_session (init_checker ''test-bucket'')
     (createDataFrame [] (sample_schema @ [''trip_duration_minutes'', ''tip_percentage'']))
   = (Inl ZeroDivisionError,
      \<lparr>bucket_name = ''test-bucket'',
       quality_metrics = [(''null_violations'', 0), (''range_violations'', 0),
         (''datetime_violations'', 0), (''duration_violations'', 0),
         (''tip_percentage_violations'', 0)]\<rparr>)"
  using run_all_checks_empty_raises[of example_session "init_checker ''test-bucket''"
      "sample_schema @ [''trip_duration_minutes'', ''tip_percentage'']"]
  by (simp add: stored_zero_def init_checker_def sample_schema_def REQUIRED_FIELDS_def)

section \<open>The quarantine writers\<close>

text \<open>
  Claim C4 (no write on empty): when the list of invalid batches is empty, or every batch
  in it has no rows, neither writer raises, no write call reaches the storage and the
  stored datasets are unchanged.
\<close>

theorem no_write_on_empty:
  assumes "invalid_dfs = [] \<or> list_all (\<lambda>df. df_count df = 0) invalid_dfs"
  shows "fst (checker_write_to_dead_letter_queue s now self invalid_dfs run_id w) = None
       \<and> write_calls (snd (checker_write_to_dead_letter_queue s now self invalid_dfs run_id w))
           = write_calls w
       \<and> files (snd (checker_write_to_dead_letter_queue s now self invalid_dfs run_id w)) = files w
       \<and> fst (write_to_dead_letter_queue s now invalid_dfs bucket job_run_id w) = None
       \<and> write_calls (snd (write_to_dead_letter_queue s now invalid_dfs bucket job_run_id w))
           = write_calls w
       \<and> files (snd (write_to_dead_letter_queue s now invalid_dfs bucket job_run_id w)) = files w"
  using assms
  by (auto simp: checker_write_to_dead_letter_queue_def write_to_dead_letter_queue_def print_def)

theorem no_write_on_empty_witness:
  "fst (checker_write_to_dead_letter_queue example_session example_now (init_checker ''test-bucket'')
          [createDataFrame [] sample_schema] None empty_storage) = None
   \<and> write_calls (snd (checker_write_to_dead_letter_queue example_session example_now
          (init_checker ''test-bucket'') [createDataFrame [] sample_schema] None empty_storage)) = []
   \<and> write_calls (snd (write_to_dead_letter_queue example_session example_now
          [createDataFrame [] sample_schema] ''test-bucket'' ''20230101_120000'' empty_storage)) = []"
proof -
  have h: "[createDataFrame [] sample_schema] = []
           \<or> list_all (\<lambda>df. df_count df = 0) [createDataFrame [] sample_schema]"
    by (simp add: df_count_def createDataFrame_def)
  show ?thesis
    using no_write_on_empty[OF h, of example_session example_now "init_checker ''test-bucket''" None
        empty_storage "''test-bucket''" "''20230101_120000''"]
    by (simp add: empty_storage_def)
qed

text \<open>
  Claim C5 (a failing quarantine write is not fatal). The claim does not hold of
  \<open>DataQualityChecker.write_to_dead_letter_queue\<close>, whose handler ends in \<open>raise\<close>: with a
  destination that refuses the write it hands the error to its caller.
\<close>

theorem checker_dlq_failure_propagates:
  "fst (checker_write_to_dead_letter_queue example_session example_now
          (init_checker ''test-bucket'') [rejected_batch_a] (Some ''20230101_120000'')
          broken_dlq_storage)
     = Some (WriteFailed ''Access Denied'')"
  by code_simp

text \<open>
  Claim C5 as amended, for the job's own writer and \<open>main\<close>: when steps 2 to 4 return
  rejected records and the quarantine destination refuses the write, the writer returns
  normally, the error is printed, and \<open>main\<close> goes on to append the accepted batch to
  the target path (whose own calls are assumed not to fail) and returns normally.
\<close>

theorem dlq_failure_is_not_fatal:
  assumes steps: "and_then (and_then (add_derived_columns s df) (filter_invalid_records s))
                    (run_data_quality_checks s) = Inr (valid_df, invalid_dfs)"
    and rejected: "\<not> list_all (\<lambda>d. df_count d = 0) invalid_dfs"
    and dlq_down: "map_of (unwritable w)
                     (dlq_path (arg_bucket_name args) now (now_strftime now)) = Some msg"
    and target_readable:
      "map_of (unreadable w) (''s3://'' @ arg_bucket_name args @ ''/'' @ target_prefix args) = None"
    and target_writable:
      "map_of (unwritable w) (''s3://'' @ arg_bucket_name args @ ''/'' @ target_prefix args) = None"
  shows "fst (write_to_dead_letter_queue s now invalid_dfs (arg_bucket_name args)
                (now_strftime now) w) = None
       \<and> ''Error writing to DLQ: '' @ msg
            \<in> set (stdout (snd (write_to_dead_letter_queue s now invalid_dfs (arg_bucket_name args)
                                   (now_strftime now) w)))
       \<and> fst (main s now args df w) = None
       \<and> (''s3://'' @ arg_bucket_name args @ ''/'' @ target_prefix args, valid_df)
            \<in> set (files (snd (main s now args df w)))"
proof -
  let ?dlq = "write_to_dead_letter_queue s now invalid_dfs (arg_bucket_name args)
                (now_strftime now) w"
  let ?target = "''s3://'' @ arg_bucket_name args @ ''/'' @ target_prefix args"
  have ret: "fst ?dlq = None"
    by (rule write_to_dead_letter_queue_returns)
  then obtain w1 where dlq: "?dlq = (None, w1)"
    by (cases ?dlq) simp
  then have w1: "w1 = snd ?dlq" by simp
  have logged: "''Error writing to DLQ: '' @ msg \<in> set (stdout (snd ?dlq))"
    using rejected dlq_down by (rule write_to_dead_letter_queue_logs)
  have env: "map_of (unreadable w1) ?target = None" "map_of (unwritable w1) ?target = None"
    using target_readable target_writable
    unfolding w1 by (simp_all add: write_to_dead_letter_queue_env)
  note acc = parquet_write_accepted[OF env(2), of Append valid_df]
  obtain w2 where pw: "parquet_write Append ?target valid_df w1 = (None, w2)"
    using acc by (cases "parquet_write Append ?target valid_df w1") simp
  have m: "main s now args df w =
     (None, (print ''Data written successfully!'' w2)\<lparr>job_commits := Suc (job_commits w2)\<rparr>)"
    unfolding main_def Let_def steps
    by (simp only: sum.case prod.case option.case env(1) dlq pw)
  have "(?target, valid_df) \<in> set (files w2)"
    using acc pw by simp
  then have "fst (main s now args df w) = None
       \<and> (?target, valid_df) \<in> set (files (snd (main s now args df w)))"
    unfolding m by simp
  with ret logged show ?thesis by blast
qed

theorem dlq_failure_is_not_fatal_witness:
  "fst (write_to_dead_letter_queue example_session example_now
          (snd (projr (and_then (and_then (add_derived_columns example_session job_batch)
                                   (filter_invalid_records example_session))
                          (run_data_quality_checks example_session))))
          ''test-bucket'' ''20230101_120000'' broken_dlq_storage) = None
   \<and> ''Error writing to DLQ: Access Denied''
        \<in> set (stdout (snd (main example_session example_now example_args job_batch
                               broken_dlq_storage)))
   \<and> fst (main example_session example_now example_args job_batch broken_dlq_storage) = None
   \<and> map (\<lambda>(p, d). (p, df_count d))
        (files (snd (main example_session example_now example_args job_batch broken_dlq_storage)))
      = [(''s3://test-bucket/processed/taxi/'', 1)]"
proof -
  let ?steps = "and_then (and_then (add_derived_columns example_session job_batch)
                            (filter_invalid_records example_session))
                  (run_data_quality_checks example_session)"
  have steps: "?steps = Inr (fst (projr ?steps), snd (projr ?steps))"
    by code_simp
  have rejected: "\<not> list_all (\<lambda>d. df_count d = 0) (snd (projr ?steps))"
    by code_simp
  have dlq_down: "map_of (unwritable broken_dlq_storage)
                    (dlq_path (arg_bucket_name example_args) example_now
                       (now_strftime example_now)) = Some ''Access Denied''"
    by code_simp
  have target_readable: "map_of (unreadable broken_dlq_storage)
      (''s3://'' @ arg_bucket_name example_args @ ''/'' @ target_prefix example_args) = None"
    by code_simp
  have target_writable: "map_of (unwritable broken_dlq_storage)
      (''s3://'' @ arg_bucket_name example_args @ ''/'' @ target_prefix example_args) = None"
    by code_simp
  have rest: "''Error writing to DLQ: Access Denied''
        \<in> set (stdout (snd (main example_session example_now example_args job_batch
                               broken_dlq_storage)))
     \<and> map (\<lambda>(p, d). (p, df_count d))
        (files (snd (main example_session example_now example_args job_batch broken_dlq_storage)))
      = [(''s3://test-bucket/processed/taxi/'', 1)]"
    by code_simp
  from dlq_failure_is_not_fatal[OF steps rejected dlq_down target_readable target_writable] rest
  show ?thesis
    by (simp add: example_args_def example_now_def)
qed




section \<open>Derived columns\<close>

text \<open>
  Claim C6 (derived columns). As stated the claim fails in one respect: the duration is
  taken between \<open>unix_timestamp\<close> values, which are whole seconds (the fraction of a
  second is dropped), so a trip from 12:00:00.9 to 12:01:00.0 gets 1 minute and not
  0.985.
\<close>

theorem duration_truncates_to_seconds:
  "(case add_derived_columns example_session subsecond_batch of
      Inr df' \<Rightarrow>
        row_get (columns df') (rows df' ! 0) ''trip_duration_minutes'' = Some (Num 1)
        \<and> exact_duration_minutes (cell_at subsecond_batch 0 ''tpep_pickup_datetime'')
              (cell_at subsecond_batch 0 ''tpep_dropoff_datetime'') = Num (197 / 200)
    | Inl e \<Rightarrow> False)"
  by code_simp

text \<open>
  Claim C6 as amended: on a well-formed batch that has the two timestamp columns and the
  fare and tip columns, \<open>add_derived_columns\<close> raises nothing and returns a batch with as
  many rows, in the same order, in which for every row \<open>trip_duration_minutes\<close> is the
  difference of dropoff and pickup, each with its fraction of a second dropped, divided
  by 60, and NULL when either timestamp is missing; \<open>tip_percentage\<close> is \<open>tip_amount / fare_amount * 100\<close> when
  \<open>fare_amount > 0\<close> and 0 otherwise; and every column other than the seven added ones
  keeps its cell.
\<close>

theorem add_derived_columns_spec:
  assumes wf: "\<forall>r\<in>set (rows df). length r = length (columns df)"
    and cols: "{''tpep_pickup_datetime'', ''tpep_dropoff_datetime'', ''fare_amount'',
                ''tip_amount''} \<subseteq> set (columns df)"
  shows "\<exists>df'. add_derived_columns s df = Inr df'
          \<and> length (rows df') = length (rows df)
          \<and> (\<forall>i<length (rows df).
                row_get (columns df') (rows df' ! i) ''trip_duration_minutes''
                  = Some (whole_seconds_duration_minutes
                            (cell_at df i ''tpep_pickup_datetime'')
                            (cell_at df i ''tpep_dropoff_datetime''))
              \<and> row_get (columns df') (rows df' ! i) ''tip_percentage''
                  = Some (tip_ratio (cell_at df i ''tip_amount'') (cell_at df i ''fare_amount''))
              \<and> (\<forall>c. c \<notin> {''trip_duration_minutes'', ''tip_percentage'',
                            ''quality_check_timestamp'', ''year'', ''month'', ''processed_at'',
                            ''etl_job_name''}
                     \<longrightarrow> row_get (columns df') (rows df' ! i) c
                           = row_get (columns df) (rows df ! i) c))"
  using add_derived_columns_view[OF assms] .

theorem add_derived_columns_spec_witness:
  "(case add_derived_columns example_session derive_batch of
      Inr df' \<Rightarrow>
        df_count df' = 3
        \<and> row_get (columns df') (rows df' ! 0) ''trip_duration_minutes'' = Some (Num 15)
        \<and> row_get (columns df') (rows df' ! 1) ''trip_duration_minutes'' = Some Null
        \<and> row_get (columns df') (rows df' ! 2) ''trip_duration_minutes'' = Some (Num 1)
        \<and> row_get (columns df') (rows df' ! 0) ''tip_percentage'' = Some (Num 16)
        \<and> row_get (columns df') (rows df' ! 1) ''tip_percentage'' = Some (Num 0)
        \<and> row_get (columns df') (rows df' ! 2) ''tip_percentage'' = Some (Num 20)
    | Inl e \<Rightarrow> False)"
proof -
  have wf: "\<forall>r\<in>set (rows derive_batch). length r = length (columns derive_batch)"
    by (simp add: derive_batch_def createDataFrame_def job_schema_def)
  have cols: "{''tpep_pickup_datetime'', ''tpep_dropoff_datetime'', ''fare_amount'',
                ''tip_amount''} \<subseteq> set (columns derive_batch)"
    by (simp add: derive_batch_def createDataFrame_def job_schema_def)
  have n: "length (rows derive_batch) = 3"
    by (simp add: derive_batch_def createDataFrame_def)
  have v: "whole_seconds_duration_minutes (cell_at derive_batch 0 ''tpep_pickup_datetime'')
             (cell_at derive_batch 0 ''tpep_dropoff_datetime'') = Num 15"
    "whole_seconds_duration_minutes (cell_at derive_batch (Suc 0) ''tpep_pickup_datetime'')
             (cell_at derive_batch (Suc 0) ''tpep_dropoff_datetime'') = Null"
    "whole_seconds_duration_minutes (cell_at derive_batch 2 ''tpep_pickup_datetime'')
             (cell_at derive_batch 2 ''tpep_dropoff_datetime'') = Num 1"
    "tip_ratio (cell_at derive_batch 0 ''tip_amount'') (cell_at derive_batch 0 ''fare_amount'')
       = Num 16"
    "tip_ratio (cell_at derive_batch (Suc 0) ''tip_amount'')
       (cell_at derive_batch (Suc 0) ''fare_amount'') = Num 0"
    "tip_ratio (cell_at derive_batch 2 ''tip_amount'') (cell_at derive_batch 2 ''fare_amount'')
       = Num 20"
    by code_simp+
  from add_derived_columns_spec[OF wf cols, of example_session]
  obtain df' where run: "add_derived_columns example_session derive_batch = Inr df'"
    and len: "length (rows df') = length (rows derive_batch)"
    and each: "\<forall>i<length (rows derive_batch).
                row_get (columns df') (rows df' ! i) ''trip_duration_minutes''
                  = Some (whole_seconds_duration_minutes
                            (cell_at derive_batch i ''tpep_pickup_datetime'')
                            (cell_at derive_batch i ''tpep_dropoff_datetime''))
              \<and> row_get (columns df') (rows df' ! i) ''tip_percentage''
                  = Some (tip_ratio (cell_at derive_batch i ''tip_amount'')
                            (cell_at derive_batch i ''fare_amount''))"
    by blast
  from each[rule_format, of 0] each[rule_format, of 1] each[rule_format, of 2] len
  show ?thesis
    unfolding run by (simp add: n v df_count_def)
qed

section \<open>The pre-filter of the job\<close>

text \<open>
  Claim C9 (silent discard): \<open>filter_invalid_records\<close> returns only the filtered batch,
  with the columns it was given (no failure reason is added) and without any record
  whose trip distance, fare or passenger count is not above 0 or whose dropoff is not
  after its pickup. It has no access to the quality metrics or to the storage, and
  \<open>main\<close> passes only its result on: on a well-formed batch with the taxi columns,
  \<open>main\<close> returns, writes (quarantine included) and prints what it would if those
  records had never been in the input.
\<close>

theorem discarded_records_leave_no_trace:
  assumes wf: "\<forall>r\<in>set (rows df). length r = length (columns df)"
    and cols: "{''tpep_pickup_datetime'', ''tpep_dropoff_datetime'', ''passenger_count'',
                ''trip_distance'', ''fare_amount'', ''tip_amount''} \<subseteq> set (columns df)"
  shows "(\<forall>d d' r. filter_invalid_records s d = Inr d' \<and> discarded (columns d) r
            \<longrightarrow> r \<notin> set (rows d') \<and> columns d' = columns d \<and> set (rows d') \<subseteq> set (rows d))
       \<and> main s now args (df\<lparr>rows := filter (\<lambda>r. \<not> discarded (columns df) r) (rows df)\<rparr>) w
           = main s now args df w"
proof (intro conjI allI impI)
  fix d d' r
  assume a: "filter_invalid_records s d = Inr d' \<and> discarded (columns d) r"
  then have d': "d' = d\<lparr>rows := filter (\<lambda>r. eval s (columns d) r filter_condition = Bool True)
                                   (rows d)\<rparr>"
    by (auto simp: filter_invalid_records_def df_filter_def and_then_def Let_def
        split: if_splits)
  from a have "eval s (columns d) r filter_condition = Bool False"
    by (simp add: discarded_not_kept)
  then show "r \<notin> set (rows d')" "columns d' = columns d" "set (rows d') \<subseteq> set (rows d)"
    unfolding d' by auto
next
  show "main s now args (df\<lparr>rows := filter (\<lambda>r. \<not> discarded (columns df) r) (rows df)\<rparr>) w
           = main s now args df w"
    unfolding main_def job_steps_ignore_discarded[OF wf cols] ..
qed

theorem discarded_records_leave_no_trace_witness:
  "(let D = projr (add_derived_columns example_session mixed_job_batch);
        D' = projr (filter_invalid_records example_session D)
    in df_count D = 6 \<and> df_count D' = 2
       \<and> discarded (columns D) (rows D ! 1) \<and> rows D ! 1 \<notin> set (rows D')
       \<and> columns D' = columns D)
   \<and> map (\<lambda>(p, d). (p, df_count d))
         (files (snd (main example_session example_now example_args mixed_job_batch
                        empty_storage)))
       = [(''s3://test-bucket/dead-letter-queue/taxi/year=2023/month=01/run_id=20230101_120000/'', 1),
          (''s3://test-bucket/processed/taxi/'', 1)]
   \<and> main example_session example_now example_args
         (mixed_job_batch\<lparr>rows := filter (\<lambda>r. \<not> discarded (columns mixed_job_batch) r)
                                     (rows mixed_job_batch)\<rparr>) empty_storage
       = main example_session example_now example_args mixed_job_batch empty_storage"
proof -
  let ?D = "projr (add_derived_columns example_session mixed_job_batch)"
  let ?D' = "projr (filter_invalid_records example_session ?D)"
  have wf: "\<forall>r\<in>set (rows mixed_job_batch). length r = length (columns mixed_job_batch)"
    by (simp add: mixed_job_batch_def createDataFrame_def job_schema_def)
  have cols: "{''tpep_pickup_datetime'', ''tpep_dropoff_datetime'', ''passenger_count'',
                ''trip_distance'', ''fare_amount'', ''tip_amount''}
                \<subseteq> set (columns mixed_job_batch)"
    by (simp add: mixed_job_batch_def createDataFrame_def job_schema_def)
  have run: "filter_invalid_records example_session ?D = Inr ?D'"
    by code_simp
  have gone: "discarded (columns ?D) (rows ?D ! 1)"
    by code_simp
  have counts: "df_count ?D = 6" "df_count ?D' = 2"
    by code_simp+
  have written: "map (\<lambda>(p, d). (p, df_count d))
         (files (snd (main example_session example_now example_args mixed_job_batch
                        empty_storage)))
       = [(''s3://test-bucket/dead-letter-queue/taxi/year=2023/month=01/run_id=20230101_120000/'', 1),
          (''s3://test-bucket/processed/taxi/'', 1)]"
    by code_simp
  note t = discarded_records_leave_no_trace[OF wf cols, of example_session example_now
      example_args empty_storage]
  from t have "rows ?D ! 1 \<notin> set (rows ?D') \<and> columns ?D' = columns ?D"
    using run gone by blast
  moreover from t have "main example_session example_now example_args
         (mixed_job_batch\<lparr>rows := filter (\<lambda>r. \<not> discarded (columns mixed_job_batch) r)
                                     (rows mixed_job_batch)\<rparr>) empty_storage
       = main example_session example_now example_args mixed_job_batch empty_storage"
    by blast
  ultimately show ?thesis
    using gone counts written by (simp only: Let_def simp_thms)
qed

end
